theory Spec2Isabelle
  imports Complex_Main "HOL-Library.Signed_Division"
begin

section \<open>JavaScript values used by the relayer\<close>

text \<open>
  Strings are lists of code units below 256; every string the relayer inspects
  (addresses, hex data, decimal numerals) is ASCII.  \<open>bigint\<close> values are \<open>int\<close>.
  A \<open>number\<close> is a double: not-a-number, an infinity, or a finite rational.
\<close>

datatype jsnumber = NaN | Finite rat | PosInfinity | NegInfinity

text \<open>\<^verbatim>\<open>deadline <= chainTime\<close>, where \<open>chainTime\<close> is an integer-valued number.\<close>

fun js_le :: "jsnumber \<Rightarrow> int \<Rightarrow> bool" where
  "js_le NaN t = False"
| "js_le (Finite q) t = (q \<le> of_int t)"
| "js_le PosInfinity t = False"
| "js_le NegInfinity t = True"

fun bit_length :: "nat \<Rightarrow> nat" where
  "bit_length n = (if n = 0 then 0 else Suc (bit_length (n div 2)))"

text \<open>
  \<^verbatim>\<open>Number(x)\<close> for a bigint \<open>x\<close>: exact below \<open>2^53\<close>, otherwise rounded to 53
  significant bits (ties to even), overflowing to an infinity.
\<close>

definition Number_bigint :: "int \<Rightarrow> jsnumber" where
  "Number_bigint x = (let a = nat \<bar>x\<bar> in
     if a < 2 ^ 53 then Finite (of_int x)
     else let e = bit_length a - 53; q = a div 2 ^ e; r = a mod 2 ^ e; h = 2 ^ (e - 1);
              m = (if h < r \<or> (r = h \<and> odd q) then q + 1 else q); v = m * 2 ^ e
          in if 2 ^ 1024 \<le> v then (if x < 0 then NegInfinity else PosInfinity)
             else Finite (of_int (sgn x * int v)))"

text \<open>\<^verbatim>\<open>s.startsWith(p)\<close> and \<^verbatim>\<open>s.toLowerCase()\<close>.\<close>

definition startsWith :: "string \<Rightarrow> string \<Rightarrow> bool" where
  "startsWith s p = (take (length p) s = p)"

definition isUpper :: "char \<Rightarrow> bool" where
  "isUpper c = (let n = of_char c :: nat in
     (65 \<le> n \<and> n \<le> 90) \<or> (192 \<le> n \<and> n \<le> 222 \<and> n \<noteq> 215))"

text \<open>Every upper-case code unit below 256 has bit 5 clear; its lower-case partner has it set.\<close>

definition lower_char :: "char \<Rightarrow> char" where
  "lower_char c = (if isUpper c
     then (case c of Char b0 b1 b2 b3 b4 b5 b6 b7 \<Rightarrow> Char b0 b1 b2 b3 b4 True b6 b7)
     else c)"

definition toLowerCase :: "string \<Rightarrow> string" where
  "toLowerCase s = map lower_char s"

subsection \<open>\<^verbatim>\<open>BigInt(string)\<close> and \<^verbatim>\<open>bigint.toString()\<close>\<close>

definition isWhiteSpace :: "char \<Rightarrow> bool" where
  "isWhiteSpace c = (of_char c \<in> {9, 10, 11, 12, 13, 32, 160 :: nat})"

definition trim :: "string \<Rightarrow> string" where
  "trim s = rev (dropWhile isWhiteSpace (rev (dropWhile isWhiteSpace s)))"

definition digit_value :: "char \<Rightarrow> nat option" where
  "digit_value c = (let n = of_char c :: nat in
     if 48 \<le> n \<and> n \<le> 57 then Some (n - 48)
     else if 97 \<le> n \<and> n \<le> 102 then Some (n - 87)
     else if 65 \<le> n \<and> n \<le> 70 then Some (n - 55)
     else None)"

definition parse_step :: "nat \<Rightarrow> nat option \<Rightarrow> char \<Rightarrow> nat option" where
  "parse_step b acc c = (case acc of None \<Rightarrow> None | Some a \<Rightarrow>
     (case digit_value c of None \<Rightarrow> None
      | Some d \<Rightarrow> if d < b then Some (a * b + d) else None))"

definition parse_digits :: "nat \<Rightarrow> string \<Rightarrow> nat option" where
  "parse_digits b cs = (if cs = [] then None else foldl (parse_step b) (Some 0) cs)"

text \<open>
  \<^verbatim>\<open>BigInt(s)\<close> on a string: surrounding white space is dropped; the empty string
  is \<open>0n\<close>; a \<open>0x\<close>, \<open>0o\<close> or \<open>0b\<close> literal carries no sign; a decimal literal may
  carry one.  \<open>None\<close> is the \<open>SyntaxError\<close>.
\<close>

definition BigInt :: "string \<Rightarrow> int option" where
  "BigInt s = (let t = trim s in
     if t = [] then Some 0
     else if take 2 t = ''0x'' \<or> take 2 t = ''0X''
       then map_option int (parse_digits 16 (drop 2 t))
     else if take 2 t = ''0o'' \<or> take 2 t = ''0O''
       then map_option int (parse_digits 8 (drop 2 t))
     else if take 2 t = ''0b'' \<or> take 2 t = ''0B''
       then map_option int (parse_digits 2 (drop 2 t))
     else if hd t = CHR ''-'' then map_option (\<lambda>n. - int n) (parse_digits 10 (tl t))
     else if hd t = CHR ''+'' then map_option int (parse_digits 10 (tl t))
     else map_option int (parse_digits 10 t))"

definition digit_char :: "nat \<Rightarrow> char" where
  "digit_char d = ''0123456789'' ! d"

fun nat_toString :: "nat \<Rightarrow> string" where
  "nat_toString n = (if n < 10 then [digit_char n]
     else nat_toString (n div 10) @ [digit_char (n mod 10)])"

declare nat_toString.simps [simp del]

definition bigint_toString :: "int \<Rightarrow> string" where
  "bigint_toString i = (if i < 0 then CHR ''-'' # nat_toString (nat (- i))
     else nat_toString (nat i))"

section \<open>Data model of \<^verbatim>\<open>relayer/index.ts\<close>\<close>

record RelayerConfig =
  relayerPrivateKey :: string
  forwarderAddress :: string
  rpcUrl :: "string option"

text \<open>
  The fields \<open>from\<close> and \<open>to\<close> of a payment request are \<open>from_addr\<close> and
  \<open>to_addr\<close> here, \<open>from\<close> being a keyword.  All fields have the types the
  interface declares: the deadline is a number, the others strings.
\<close>

record PaymentRequest =
  from_addr :: string
  to_addr :: string
  amount :: string
  fee :: string
  deadline :: jsnumber
  signature :: string

record ExecuteResult =
  success :: bool
  transactionHash :: string
  blockNumber :: "int option"
  gasUsed :: string

record BatchExecuteResult = ExecuteResult +
  paymentsProcessed :: nat

text \<open>The EIP-712 domain and message handed to \<^verbatim>\<open>recoverTypedDataAddress\<close>.\<close>

record TypedDataDomain =
  name :: string
  version :: string
  chainId :: jsnumber
  verifyingContract :: string

record TypedMessage =
  msg_from :: string
  msg_to :: string
  msg_amount :: int
  msg_fee :: int
  msg_nonce :: int
  msg_deadline :: jsnumber

text \<open>
  An error object raised by ethers, viem or the RPC node: its message and the optional
  \<open>reason\<close>, \<open>data\<close> and \<open>revert.name\<close> the relayer looks at.
\<close>

record jserror =
  message :: string
  reason :: "string option"
  data :: "string option"
  revert :: "string option"

text \<open>JavaScript truthiness of an optional string: present and not empty.\<close>

fun truthy :: "string option \<Rightarrow> bool" where
  "truthy None = False"
| "truthy (Some s) = (s \<noteq> [])"

text \<open>
  The errors \<open>executePayment\<close>, \<open>executeBatchPayments\<close> and \<open>validateRequest\<close> raise.
  Each constructor is one message template of the source, its arguments the
  interpolated values:
  \<^item> \<open>LibraryError\<close>: an error of a library or ledger call that no handler catches;
  \<^item> \<open>SyntaxError\<close>: \<^verbatim>\<open>BigInt(s)\<close> on a string that is no integer literal;
  \<^item> \<open>InvalidSignature\<close>: "Invalid signature: must be a hex string";
  \<^item> \<open>InvalidSignatureFormat m\<close>: "Invalid signature format: m";
  \<^item> \<open>SignerMismatch r f c n\<close>: "Signature invalid: recovered r but expected f. Check
    chainId (expected c), forwarder address, and nonce (expected n).";
  \<^item> \<open>RequestExpired d t\<close>: "Payment request has expired (deadline: d, chain: t)";
  \<^item> \<open>InsufficientBalance r a\<close>: "Insufficient FXRP balance. Required: r, Available: a";
  \<^item> \<open>InsufficientAllowance r a\<close>: "Insufficient FXRP allowance. Required: r, Approved: a";
  \<^item> \<open>FeeTooLow m\<close>: "Fee too low. Minimum: m FXRP";
  \<^item> \<open>SimulationFailed m\<close>: "Contract simulation failed: m";
  \<^item> \<open>CounterRaceLost n n'\<close>: "Nonce changed (was n, now n'). Payment may have been
    submitted by another request. Please create a new payment request.";
  \<^item> \<open>EstimationFailed m\<close>: "Gas estimation failed (contract would revert): m";
  \<^item> \<open>PhaseFailed p m h\<close>: "p failed: mh", built by the revert diagnoser.
\<close>

datatype error =
    LibraryError jserror
  | SyntaxError string
  | InvalidSignature
  | InvalidSignatureFormat string
  | SignerMismatch string string int int
  | RequestExpired jsnumber int
  | InsufficientBalance string string
  | InsufficientAllowance string string
  | FeeTooLow string
  | SimulationFailed string
  | CounterRaceLost int int
  | EstimationFailed string
  | PhaseFailed string string string

section \<open>The libraries and the ledger\<close>

text \<open>
  The functions of ethers and viem the relayer calls without touching the network.
  \<open>Inl\<close> is a raised error; \<open>parseError\<close> may also return \<open>null\<close>.
\<close>

record library =
  getAddress :: "string \<Rightarrow> jserror + string"
  formatUnits :: "int \<Rightarrow> int \<Rightarrow> string"
  recoverTypedDataAddress :: "TypedDataDomain \<Rightarrow> TypedMessage \<Rightarrow> string \<Rightarrow> jserror + string"
  parseError :: "string \<Rightarrow> jserror + string option"

text \<open>The arguments of the forwarder's \<open>executePayment\<close>.\<close>

record PaymentArgs =
  arg_from :: string
  arg_to :: string
  arg_amount :: int
  arg_fee :: int
  arg_deadline :: jsnumber
  arg_signature :: string

record Block =
  timestamp :: int

record TransactionReceipt =
  receipt_blockNumber :: "int option"
  receipt_gasUsed :: "int option"

text \<open>
  The ledger client.  Every operation is a request to the RPC node: it may fail, and it
  may find the ledger (of type \<open>'w\<close>) changed by others since the last request, so each
  returns the answer and the ledger after it.  \<open>dateNow\<close> is the local clock, in
  milliseconds.  \<open>getBlock\<close>, \<open>wait\<close> and \<open>getTransaction\<close> may answer \<open>null\<close>;
  \<open>getTransaction\<close> yields the transaction's calldata, \<open>sendPayment\<close> and
  \<open>sendBatch\<close> the hash of the transaction sent.
\<close>

record 'w ledger =
  getNetwork :: "'w \<Rightarrow> (jserror + int) \<times> 'w"
  getNonce :: "string \<Rightarrow> 'w \<Rightarrow> (jserror + int) \<times> 'w"
  getBlock :: "'w \<Rightarrow> (jserror + Block option) \<times> 'w"
  dateNow :: "'w \<Rightarrow> int"
  fxrp :: "'w \<Rightarrow> (jserror + string) \<times> 'w"
  decimals :: "string \<Rightarrow> 'w \<Rightarrow> (jserror + int) \<times> 'w"
  balanceOf :: "string \<Rightarrow> string \<Rightarrow> 'w \<Rightarrow> (jserror + int) \<times> 'w"
  allowance :: "string \<Rightarrow> string \<Rightarrow> string \<Rightarrow> 'w \<Rightarrow> (jserror + int) \<times> 'w"
  relayerFee :: "'w \<Rightarrow> (jserror + int) \<times> 'w"
  staticCall :: "PaymentArgs \<Rightarrow> 'w \<Rightarrow> (jserror + unit) \<times> 'w"
  estimateGas :: "PaymentArgs \<Rightarrow> 'w \<Rightarrow> (jserror + int) \<times> 'w"
  sendPayment :: "PaymentArgs \<Rightarrow> int \<Rightarrow> 'w \<Rightarrow> (jserror + string) \<times> 'w"
  sendBatch :: "PaymentRequest list \<Rightarrow> int \<Rightarrow> 'w \<Rightarrow> (jserror + string) \<times> 'w"
  wait :: "string \<Rightarrow> 'w \<Rightarrow> (jserror + TransactionReceipt option) \<times> 'w"
  getTransaction :: "string \<Rightarrow> 'w \<Rightarrow> (jserror + string option) \<times> 'w"

text \<open>One network call: the request with its arguments, and the answer.\<close>

datatype event =
    GetNetwork "jserror + int"
  | GetNonce string "jserror + int"
  | GetBlock "jserror + Block option"
  | Fxrp "jserror + string"
  | Decimals string "jserror + int"
  | BalanceOf string string "jserror + int"
  | Allowance string string string "jserror + int"
  | RelayerFee "jserror + int"
  | StaticCall PaymentArgs "jserror + unit"
  | EstimateGas PaymentArgs "jserror + int"
  | SendPayment PaymentArgs int "jserror + string"
  | SendBatch "PaymentRequest list" int "jserror + string"
  | Wait string "jserror + TransactionReceipt option"
  | GetTransaction string "jserror + string option"

text \<open>
  An asynchronous computation: from the ledger it finds, the value it returns or the
  error it raises, the ledger it leaves, and the network calls it made, in order.
\<close>

type_synonym ('w, 'e, 'a) io = "'w \<Rightarrow> ('e + 'a) \<times> 'w \<times> event list"

definition return :: "'a \<Rightarrow> ('w, 'e, 'a) io" where
  "return a w = (Inr a, w, [])"

definition throw :: "'e \<Rightarrow> ('w, 'e, 'a) io" where
  "throw e w = (Inl e, w, [])"

definition bind_io :: "('w, 'e, 'a) io \<Rightarrow> ('a \<Rightarrow> ('w, 'e, 'b) io) \<Rightarrow> ('w, 'e, 'b) io" where
  "bind_io m f w = (case m w of
       (Inl e, w', t) \<Rightarrow> (Inl e, w', t)
     | (Inr a, w', t) \<Rightarrow> (case f a w' of (r, w'', t') \<Rightarrow> (r, w'', t @ t')))"

definition catch_io :: "('w, 'e, 'a) io \<Rightarrow> ('e \<Rightarrow> ('w, 'f, 'a) io) \<Rightarrow> ('w, 'f, 'a) io" where
  "catch_io m h w = (case m w of
       (Inl e, w', t) \<Rightarrow> (case h e w' of (r, w'', t') \<Rightarrow> (r, w'', t @ t'))
     | (Inr a, w', t) \<Rightarrow> (Inr a, w', t))"

text \<open>\<^verbatim>\<open>await\<close> of one ledger operation, recorded as an event.\<close>

definition await :: "('w \<Rightarrow> (jserror + 'a) \<times> 'w) \<Rightarrow> ((jserror + 'a) \<Rightarrow> event) \<Rightarrow> ('w, jserror, 'a) io" where
  "await op ev w = (case op w of (r, w') \<Rightarrow> (r, w', [ev r]))"

text \<open>An \<^verbatim>\<open>await\<close> outside every \<^verbatim>\<open>try\<close>: the error leaves the function as it is.\<close>

definition await_uncaught :: "('w \<Rightarrow> (jserror + 'a) \<times> 'w) \<Rightarrow> ((jserror + 'a) \<Rightarrow> event) \<Rightarrow> ('w, error, 'a) io" where
  "await_uncaught op ev = catch_io (await op ev) (\<lambda>e. throw (LibraryError e))"

text \<open>\<^verbatim>\<open>Math.floor(Date.now() / 1000)\<close>: the local clock, no network call.\<close>

definition now_seconds :: "'w ledger \<Rightarrow> ('w, 'e, int) io" where
  "now_seconds L w = (Inr (dateNow L w div 1000), w, [])"

section \<open>The relayer\<close>

subsection \<open>\<open>validateRequest\<close>\<close>

definition validateRequest :: "library \<Rightarrow> RelayerConfig \<Rightarrow> 'w ledger \<Rightarrow> PaymentRequest \<Rightarrow> ('w, error, unit) io" where
  "validateRequest lib config L request =
     bind_io (await_uncaught (getBlock L) GetBlock) (\<lambda>block.
     bind_io (case block of Some b \<Rightarrow> return (timestamp b) | None \<Rightarrow> now_seconds L) (\<lambda>chainTime.
     if js_le (deadline request) chainTime then throw (RequestExpired (deadline request) chainTime) else
     bind_io (await_uncaught (fxrp L) Fxrp) (\<lambda>fxrpAddress.
     bind_io (await_uncaught (decimals L fxrpAddress) (Decimals fxrpAddress)) (\<lambda>decimals'.
     bind_io (await_uncaught (balanceOf L fxrpAddress (from_addr request))
                (BalanceOf fxrpAddress (from_addr request))) (\<lambda>balance.
     case BigInt (amount request) of None \<Rightarrow> throw (SyntaxError (amount request)) | Some a \<Rightarrow>
     (case BigInt (fee request) of None \<Rightarrow> throw (SyntaxError (fee request)) | Some f \<Rightarrow>
     let totalRequired = a + f in
     if balance < totalRequired
     then throw (InsufficientBalance (formatUnits lib totalRequired decimals')
                   (formatUnits lib balance decimals')) else
     bind_io (await_uncaught (allowance L fxrpAddress (from_addr request) (forwarderAddress config))
                (Allowance fxrpAddress (from_addr request) (forwarderAddress config))) (\<lambda>allowance'.
     if allowance' < totalRequired
     then throw (InsufficientAllowance (formatUnits lib totalRequired decimals')
                   (formatUnits lib allowance' decimals')) else
     bind_io (await_uncaught (relayerFee L) RelayerFee) (\<lambda>minFee.
     if f < minFee then throw (FeeTooLow (formatUnits lib minFee decimals'))
     else return ()))))))))"

subsection \<open>The revert diagnoser\<close>

definition parseRevertReason :: "library \<Rightarrow> jserror \<Rightarrow> string" where
  "parseRevertReason lib e =
     (if truthy (revert e) then ''Contract reverted: '' @ the (revert e)
      else if truthy (data e) \<and> startsWith (the (data e)) ''0x'' then
        (case parseError lib (the (data e)) of
           Inr (Some parsed) \<Rightarrow> ''Contract reverted: '' @ parsed
         | Inr None \<Rightarrow> message e
         | Inl _ \<Rightarrow> message e)
      else message e)"

definition explorer_hint :: "string \<Rightarrow> string" where
  "explorer_hint txHash = '' Inspect tx: https://coston2-explorer.flare.network/tx/'' @ txHash"

definition enrichRevertError :: "library \<Rightarrow> jserror \<Rightarrow> string \<Rightarrow> string option \<Rightarrow> error" where
  "enrichRevertError lib err phase txHash =
     (let msg = parseRevertReason lib err;
          hint = (if truthy txHash then explorer_hint (the txHash) else '''')
      in PhaseFailed phase msg hint)"

definition enrichRevertErrorAsync :: "library \<Rightarrow> 'w ledger \<Rightarrow> jserror \<Rightarrow> string \<Rightarrow> string \<Rightarrow> ('w, error, error) io" where
  "enrichRevertErrorAsync lib L err phase txHash =
     (let msg = parseRevertReason lib err in
      bind_io (catch_io
          (bind_io (await (getTransaction L txHash) (GetTransaction txHash)) (\<lambda>tx.
             if tx = Some ''0x'' \<or> tx = None
             then return (msg @ '' [TX had no calldata - relayer bug]'')
             else return (msg @ '' [calldata length: '' @ nat_toString (length (the tx)) @ '' chars]'')))
          (\<lambda>_. return msg)) (\<lambda>msg.
      return (PhaseFailed phase msg (explorer_hint txHash))))"

subsection \<open>\<open>executePayment\<close>\<close>

text \<open>
  Local names of the source that are field names here carry a prime (\<open>amount'\<close>,
  \<open>signature'\<close>, ...).  \<^verbatim>\<open>Number(request.deadline)\<close> is the deadline itself, and
  \<^verbatim>\<open>typeof sig !== "string"\<close> is false, by the types of the fields.
\<close>

text \<open>The gas ceiling of line 211: \<^verbatim>\<open>(estimated * 130n) / 100n\<close>; bigint division truncates.\<close>

definition gasLimit_of :: "int \<Rightarrow> int" where
  "gasLimit_of estimated = (estimated * 130) sdiv 100"

definition simulation_message :: "jserror \<Rightarrow> string" where
  "simulation_message err =
     (if truthy (reason err) then the (reason err)
      else if truthy (data err) then ''revert data: '' @ the (data err)
      else message err)"

definition executePayment :: "library \<Rightarrow> RelayerConfig \<Rightarrow> 'w ledger \<Rightarrow> PaymentRequest \<Rightarrow> ('w, error, ExecuteResult) io" where
  "executePayment lib config L request =
     (case getAddress lib (from_addr request) of Inl e \<Rightarrow> throw (LibraryError e) | Inr from \<Rightarrow>
      (case getAddress lib (to_addr request) of Inl e \<Rightarrow> throw (LibraryError e) | Inr to \<Rightarrow>
      (case BigInt (amount request) of None \<Rightarrow> throw (SyntaxError (amount request)) | Some amount' \<Rightarrow>
      (case BigInt (fee request) of None \<Rightarrow> throw (SyntaxError (fee request)) | Some fee' \<Rightarrow>
      let deadline' = deadline request; sig = signature request in
      if length sig < 130 then throw InvalidSignature else
      let signature' = (if startsWith sig ''0x'' then sig else ''0x'' @ sig);
          normalizedRequest = \<lparr>from_addr = from, to_addr = to, amount = bigint_toString amount',
            fee = bigint_toString fee', deadline = deadline', signature = signature'\<rparr>;
          args = \<lparr>arg_from = from, arg_to = to, arg_amount = amount', arg_fee = fee',
            arg_deadline = deadline', arg_signature = signature'\<rparr>
      in
      bind_io (await_uncaught (getNetwork L) GetNetwork) (\<lambda>chainId'.
      bind_io (await_uncaught (getNonce L from) (GetNonce from)) (\<lambda>nonce.
      case getAddress lib (forwarderAddress config) of Inl e \<Rightarrow> throw (LibraryError e) | Inr verifying \<Rightarrow>
      (let domain = \<lparr>name = ''GaslessPaymentForwarder'', version = ''1'',
            chainId = Number_bigint chainId', verifyingContract = verifying\<rparr>;
          message' = \<lparr>msg_from = from, msg_to = to, msg_amount = amount', msg_fee = fee',
            msg_nonce = nonce, msg_deadline = deadline'\<rparr>
      in
      (case recoverTypedDataAddress lib domain message' signature' of
        Inl e \<Rightarrow> throw (InvalidSignatureFormat (message e))
      | Inr recoveredAddress \<Rightarrow>
      if toLowerCase recoveredAddress \<noteq> toLowerCase from
      then throw (SignerMismatch recoveredAddress from chainId' nonce) else
      bind_io (validateRequest lib config L normalizedRequest) (\<lambda>_.
      bind_io (catch_io (await (staticCall L args) (StaticCall args))
                 (\<lambda>err. throw (SimulationFailed (simulation_message err)))) (\<lambda>_.
      bind_io (await_uncaught (getNonce L from) (GetNonce from)) (\<lambda>nonceNow.
      if nonceNow \<noteq> nonce then throw (CounterRaceLost nonce nonceNow) else
      bind_io (catch_io (await (estimateGas L args) (EstimateGas args))
                 (\<lambda>err. throw (EstimationFailed (message err)))) (\<lambda>estimated.
      let gasLimit = gasLimit_of estimated in
      bind_io (catch_io (await (sendPayment L args gasLimit) (SendPayment args gasLimit))
                 (\<lambda>err. throw (enrichRevertError lib err ''sendTransaction'' None))) (\<lambda>tx.
      bind_io (catch_io (await (wait L tx) (Wait tx))
                 (\<lambda>err. bind_io (enrichRevertErrorAsync lib L err ''transaction'' tx) throw)) (\<lambda>receipt.
      return \<lparr>success = True, transactionHash = tx,
        blockNumber = (case receipt of None \<Rightarrow> None | Some r \<Rightarrow> receipt_blockNumber r),
        gasUsed = (case receipt of None \<Rightarrow> ''0'' | Some r \<Rightarrow>
          (case receipt_gasUsed r of None \<Rightarrow> ''0'' | Some g \<Rightarrow> bigint_toString g))\<rparr>))))))))))))))"

text \<open>
  Lines 173 to 253 of \<open>executePayment\<close>, from the dry run to the result, under a name
  of their own so that proofs can go stage by stage; \<open>executePayment_staged\<close> below
  shows that \<open>executePayment\<close> is this continuation after validation.
\<close>

definition submit_pipeline :: "library \<Rightarrow> 'w ledger \<Rightarrow> string \<Rightarrow> PaymentArgs \<Rightarrow> int \<Rightarrow> ('w, error, ExecuteResult) io" where
  "submit_pipeline lib L from args nonce =
      bind_io (catch_io (await (staticCall L args) (StaticCall args))
                 (\<lambda>err. throw (SimulationFailed (simulation_message err)))) (\<lambda>_.
      bind_io (await_uncaught (getNonce L from) (GetNonce from)) (\<lambda>nonceNow.
      if nonceNow \<noteq> nonce then throw (CounterRaceLost nonce nonceNow) else
      bind_io (catch_io (await (estimateGas L args) (EstimateGas args))
                 (\<lambda>err. throw (EstimationFailed (message err)))) (\<lambda>estimated.
      let gasLimit = gasLimit_of estimated in
      bind_io (catch_io (await (sendPayment L args gasLimit) (SendPayment args gasLimit))
                 (\<lambda>err. throw (enrichRevertError lib err ''sendTransaction'' None))) (\<lambda>tx.
      bind_io (catch_io (await (wait L tx) (Wait tx))
                 (\<lambda>err. bind_io (enrichRevertErrorAsync lib L err ''transaction'' tx) throw)) (\<lambda>receipt.
      return \<lparr>success = True, transactionHash = tx,
        blockNumber = (case receipt of None \<Rightarrow> None | Some r \<Rightarrow> receipt_blockNumber r),
        gasUsed = (case receipt of None \<Rightarrow> ''0'' | Some r \<Rightarrow>
          (case receipt_gasUsed r of None \<Rightarrow> ''0'' | Some g \<Rightarrow> bigint_toString g))\<rparr>)))))"

subsection \<open>\<open>executeBatchPayments\<close>\<close>

text \<open>The loop \<^verbatim>\<open>for (const request of requests) await this.validateRequest(request)\<close>.\<close>

fun validate_all :: "library \<Rightarrow> RelayerConfig \<Rightarrow> 'w ledger \<Rightarrow> PaymentRequest list \<Rightarrow> ('w, error, unit) io" where
  "validate_all lib config L [] = return ()"
| "validate_all lib config L (request # requests) =
     bind_io (validateRequest lib config L request) (\<lambda>_. validate_all lib config L requests)"

definition executeBatchPayments :: "library \<Rightarrow> RelayerConfig \<Rightarrow> 'w ledger \<Rightarrow> PaymentRequest list \<Rightarrow> ('w, error, BatchExecuteResult) io" where
  "executeBatchPayments lib config L requests =
     bind_io (validate_all lib config L requests) (\<lambda>_.
     let formattedRequests = map (\<lambda>r. \<lparr>from_addr = from_addr r, to_addr = to_addr r,
           amount = amount r, fee = fee r, deadline = deadline r, signature = signature r\<rparr>) requests;
         gasLimit = 100000 * int (length requests)
     in
     bind_io (await_uncaught (sendBatch L formattedRequests gasLimit)
                (SendBatch formattedRequests gasLimit)) (\<lambda>tx.
     bind_io (await_uncaught (wait L tx) (Wait tx)) (\<lambda>receipt.
     return \<lparr>success = True, transactionHash = tx,
       blockNumber = (case receipt of None \<Rightarrow> None | Some r \<Rightarrow> receipt_blockNumber r),
       gasUsed = (case receipt of None \<Rightarrow> ''0'' | Some r \<Rightarrow>
         (case receipt_gasUsed r of None \<Rightarrow> ''0'' | Some g \<Rightarrow> bigint_toString g)),
       paymentsProcessed = length requests\<rparr>)))"

section \<open>Observations on a run\<close>

text \<open>Kinds of network call, and the answers to the replay-counter reads of a run.\<close>

fun is_dry_run :: "event \<Rightarrow> bool" where
  "is_dry_run (StaticCall a r) = True"
| "is_dry_run e = False"

fun is_estimate :: "event \<Rightarrow> bool" where
  "is_estimate (EstimateGas a r) = True"
| "is_estimate e = False"

fun is_submit :: "event \<Rightarrow> bool" where
  "is_submit (SendPayment a g r) = True"
| "is_submit (SendBatch rs g r) = True"
| "is_submit e = False"

fun is_validation_read :: "event \<Rightarrow> bool" where
  "is_validation_read (GetBlock r) = True"
| "is_validation_read (Fxrp r) = True"
| "is_validation_read (Decimals t r) = True"
| "is_validation_read (BalanceOf t a r) = True"
| "is_validation_read (Allowance t a s r) = True"
| "is_validation_read (RelayerFee r) = True"
| "is_validation_read e = False"

fun nonce_reads :: "event list \<Rightarrow> (jserror + int) list" where
  "nonce_reads [] = []"
| "nonce_reads (GetNonce a r # t) = r # nonce_reads t"
| "nonce_reads (e # t) = nonce_reads t"

text \<open>\<open>holds m w Q\<close>: the run of \<open>m\<close> from ledger \<open>w\<close> satisfies \<open>Q\<close>.\<close>

definition holds :: "('w, 'e, 'a) io \<Rightarrow> 'w \<Rightarrow> (('e + 'a) \<Rightarrow> 'w \<Rightarrow> event list \<Rightarrow> bool) \<Rightarrow> bool" where
  "holds m w Q = (case m w of (res, w', t) \<Rightarrow> Q res w' t)"

section \<open>A test ledger\<close>

text \<open>
  A stand-in for ethers and viem, and a ledger with fixed answers, to run the relayer on
  concrete requests.  The ledger's state counts the replay-counter reads, and the
  \<open>k\<close>-th read answers \<open>nonces k\<close>.
\<close>

definition plain_error :: "string \<Rightarrow> jserror" where
  "plain_error m = \<lparr>message = m, reason = None, data = None, revert = None\<rparr>"

definition good_sig :: string where
  "good_sig = ''0x1'' @ replicate 129 (CHR ''a'')"

definition forged_sig :: string where
  "forged_sig = ''0x2'' @ replicate 129 (CHR ''a'')"

definition test_lib :: library where
  "test_lib = \<lparr>
     getAddress = (\<lambda>s. if s \<in> {''0xAlice'', ''0xBob'', ''0xForwarder''} then Inr s
                       else Inl (plain_error ''invalid address'')),
     formatUnits = (\<lambda>v d. bigint_toString v),
     recoverTypedDataAddress = (\<lambda>d m s. if s = good_sig then Inr (msg_from m)
        else if s = forged_sig then Inr ''0xMallory''
        else Inl (plain_error ''invalid signature length'')),
     parseError = (\<lambda>d. if d = ''0x8baa579f'' then Inr (Some ''InvalidSignature'')
        else if d = ''0x'' then Inl (plain_error ''data too short'') else Inr None)\<rparr>"

definition test_config :: RelayerConfig where
  "test_config = \<lparr>relayerPrivateKey = ''key'', forwarderAddress = ''0xForwarder'',
     rpcUrl = None\<rparr>"

definition scenario :: "int \<Rightarrow> int \<Rightarrow> int \<Rightarrow> int \<Rightarrow> int \<Rightarrow> (nat \<Rightarrow> int) \<Rightarrow> nat ledger" where
  "scenario bal allow minFee time est nonces = \<lparr>
     getNetwork = (\<lambda>w. (Inr 114, w)),
     getNonce = (\<lambda>a w. (Inr (nonces w), Suc w)),
     getBlock = (\<lambda>w. (Inr (Some \<lparr>timestamp = time\<rparr>), w)),
     dateNow = (\<lambda>w. time * 1000),
     fxrp = (\<lambda>w. (Inr ''0xFXRP'', w)),
     decimals = (\<lambda>t w. (Inr 6, w)),
     balanceOf = (\<lambda>t a w. (Inr bal, w)),
     allowance = (\<lambda>t a s w. (Inr allow, w)),
     relayerFee = (\<lambda>w. (Inr minFee, w)),
     staticCall = (\<lambda>a w. (Inr (), w)),
     estimateGas = (\<lambda>a w. (Inr est, w)),
     sendPayment = (\<lambda>a g w. (Inr ''0xTX'', w)),
     sendBatch = (\<lambda>rs g w. (Inr ''0xBATCH'', w)),
     wait = (\<lambda>h w. (Inr (Some \<lparr>receipt_blockNumber = Some 7,
       receipt_gasUsed = Some 21000\<rparr>), w)),
     getTransaction = (\<lambda>h w. (Inr (Some ''0xabcdef''), w))\<rparr>"

definition steady_nonce :: "nat \<Rightarrow> int" where
  "steady_nonce k = 0"

definition moving_nonce :: "nat \<Rightarrow> int" where
  "moving_nonce k = int k"

definition test_request :: "jsnumber \<Rightarrow> string \<Rightarrow> PaymentRequest" where
  "test_request d s = \<lparr>from_addr = ''0xAlice'', to_addr = ''0xBob'', amount = ''80'',
     fee = ''10'', deadline = d, signature = s\<rparr>"

definition test_args :: "jsnumber \<Rightarrow> string \<Rightarrow> PaymentArgs" where
  "test_args d s = \<lparr>arg_from = ''0xAlice'', arg_to = ''0xBob'', arg_amount = 80,
     arg_fee = 10, arg_deadline = d, arg_signature = s\<rparr>"

definition revert_error :: jserror where
  "revert_error = \<lparr>message = ''execution reverted'', reason = None,
     data = Some ''0x8baa579f'', revert = None\<rparr>"

definition offline_ledger :: "nat ledger" where
  "offline_ledger = (scenario 100 90 5 1000 21001 steady_nonce)
     \<lparr>getTransaction := (\<lambda>h w. (Inl (plain_error ''network down''), w))\<rparr>"

section \<open>Decimal numerals\<close>

lemma nat_toString_small: "n < 10 \<Longrightarrow> nat_toString n = [digit_char n]"
  by (simp add: nat_toString.simps [of n])

lemma nat_toString_large:
  "\<not> n < 10 \<Longrightarrow> nat_toString n = nat_toString (n div 10) @ [digit_char (n mod 10)]"
  by (simp add: nat_toString.simps [of n])

lemma digit_char_cases: "d < 10 \<Longrightarrow> digit_char d \<in> set ''0123456789''"
  unfolding digit_char_def by (rule nth_mem) simp

lemma digit_value_digit_char: "d < 10 \<Longrightarrow> digit_value (digit_char d) = Some d"
proof -
  assume "d < 10"
  then consider "d = 0" | "d = 1" | "d = 2" | "d = 3" | "d = 4" | "d = 5" | "d = 6" | "d = 7"
    | "d = 8" | "d = 9" by force
  then show ?thesis
    by cases (simp_all add: digit_char_def digit_value_def)
qed

lemma parse_step_digit:
  "d < 10 \<Longrightarrow> parse_step 10 (Some a) (digit_char d) = Some (a * 10 + d)"
  by (simp add: parse_step_def digit_value_digit_char)

lemma nat_toString_digits: "set (nat_toString n) \<subseteq> set ''0123456789''"
proof (induction n rule: nat_toString.induct)
  case (1 n)
  show ?case
  proof (cases "n < 10")
    case True
    then show ?thesis using digit_char_cases [of n] by (simp add: nat_toString_small)
  next
    case False
    have "n mod 10 < 10" by simp
    then have "digit_char (n mod 10) \<in> set ''0123456789''" by (rule digit_char_cases)
    with False 1 show ?thesis by (simp add: nat_toString_large)
  qed
qed

lemma nat_toString_nonempty: "nat_toString n \<noteq> []"
  by (simp add: nat_toString.simps [of n])

lemma parse_nat_toString: "foldl (parse_step 10) (Some 0) (nat_toString n) = Some n"
proof (induction n rule: nat_toString.induct)
  case (1 n)
  show ?case
  proof (cases "n < 10")
    case True
    then show ?thesis by (simp add: nat_toString_small parse_step_digit)
  next
    case False
    with 1 have "foldl (parse_step 10) (Some 0) (nat_toString (n div 10)) = Some (n div 10)"
      by simp
    with False show ?thesis by (simp add: nat_toString_large parse_step_digit)
  qed
qed

lemma parse_digits_nat_toString: "parse_digits 10 (nat_toString n) = Some n"
  by (simp add: parse_digits_def nat_toString_nonempty parse_nat_toString)

lemma digit_not_space: "c \<in> set ''0123456789'' \<Longrightarrow> \<not> isWhiteSpace c"
  by (auto simp: isWhiteSpace_def)

lemma trim_id:
  assumes "s \<noteq> []" "\<not> isWhiteSpace (hd s)" "\<not> isWhiteSpace (last s)"
  shows "trim s = s"
proof -
  from assms have "dropWhile isWhiteSpace s = s" by (cases s) simp_all
  moreover from assms have "dropWhile isWhiteSpace (rev s) = rev s"
    by (cases "rev s") (simp_all add: last_rev [symmetric] hd_rev)
  ultimately show ?thesis by (simp add: trim_def)
qed

lemma trim_nat_toString: "trim (nat_toString n) = nat_toString n"
proof (rule trim_id)
  show "nat_toString n \<noteq> []" by (rule nat_toString_nonempty)
  have "hd (nat_toString n) \<in> set (nat_toString n)"
    "last (nat_toString n) \<in> set (nat_toString n)"
    by (simp_all add: nat_toString_nonempty)
  then have "hd (nat_toString n) \<in> set ''0123456789''"
    "last (nat_toString n) \<in> set ''0123456789''"
    using nat_toString_digits [of n] by blast+
  then show "\<not> isWhiteSpace (hd (nat_toString n))" "\<not> isWhiteSpace (last (nat_toString n))"
    by (simp_all only: digit_not_space not_False_eq_True)
qed

lemma digits_no_prefix:
  assumes "set t \<subseteq> set ''0123456789''"
  shows "take 2 t \<notin> {''0x'', ''0X'', ''0o'', ''0O'', ''0b'', ''0B''}"
    and "t \<noteq> [] \<Longrightarrow> hd t \<noteq> CHR ''-'' \<and> hd t \<noteq> CHR ''+''"
  using assms by (cases t; cases "tl t"; auto)+

lemma BigInt_nat_toString: "BigInt (nat_toString n) = Some (int n)"
  using digits_no_prefix [OF nat_toString_digits [of n]] nat_toString_nonempty [of n]
  by (simp add: BigInt_def trim_nat_toString parse_digits_nat_toString)

text \<open>Parsing the decimal numeral of a bigint gives the bigint back.\<close>

lemma BigInt_toString: "BigInt (bigint_toString i) = Some i"
proof (cases "i < 0")
  case False
  then show ?thesis by (simp add: bigint_toString_def BigInt_nat_toString)
next
  case True
  let ?s = "nat_toString (nat (- i))"
  have ne: "?s \<noteq> []" by (rule nat_toString_nonempty)
  have "last ?s \<in> set ?s" using ne by simp
  then have "last ?s \<in> set ''0123456789''" using nat_toString_digits [of "nat (- i)"] by blast
  then have "\<not> isWhiteSpace (last ?s)" by (simp only: digit_not_space not_False_eq_True)
  then have t: "trim (CHR ''-'' # ?s) = CHR ''-'' # ?s"
    using ne by (intro trim_id) (simp_all add: isWhiteSpace_def)
  have "hd ?s \<in> set ?s" using ne by simp
  then have "hd ?s \<in> set ''0123456789''" using nat_toString_digits [of "nat (- i)"] by blast
  then have "take 2 (CHR ''-'' # ?s) \<notin> {''0x'', ''0X'', ''0o'', ''0O'', ''0b'', ''0B''}"
    by (cases ?s) auto
  with True show ?thesis
    by (simp add: bigint_toString_def BigInt_def t parse_digits_nat_toString)
qed

lemmas io_defs = Let_def return_def throw_def bind_io_def catch_io_def await_def
  await_uncaught_def now_seconds_def

section \<open>Reasoning about runs\<close>

lemma holds_return: "holds (return a) w Q = Q (Inr a) w []"
  by (simp add: holds_def return_def)

lemma holds_throw: "holds (throw e) w Q = Q (Inl e) w []"
  by (simp add: holds_def throw_def)

lemma holds_now_seconds: "holds (now_seconds L) w Q = Q (Inr (dateNow L w div 1000)) w []"
  by (simp add: holds_def now_seconds_def)

lemma holds_await:
  "holds (await op ev) w Q = (case op w of (r, w') \<Rightarrow> Q r w' [ev r])"
  by (simp add: holds_def await_def split: prod.split)

lemma holds_bind:
  "holds (bind_io m f) w Q = holds m w (\<lambda>res w1 t1. case res of
       Inl e \<Rightarrow> Q (Inl e) w1 t1
     | Inr a \<Rightarrow> holds (f a) w1 (\<lambda>r w2 t2. Q r w2 (t1 @ t2)))"
  by (simp add: holds_def bind_io_def split: prod.split sum.split)

lemma holds_catch:
  "holds (catch_io m h) w Q = holds m w (\<lambda>res w1 t1. case res of
       Inl e \<Rightarrow> holds (h e) w1 (\<lambda>r w2 t2. Q r w2 (t1 @ t2))
     | Inr a \<Rightarrow> Q (Inr a) w1 t1)"
  by (simp add: holds_def catch_io_def split: prod.split sum.split)

lemma holds_if:
  "holds (if c then m else m') w Q = (if c then holds m w Q else holds m' w Q)"
  by simp

lemma holds_case_option:
  "holds (case x of None \<Rightarrow> m | Some a \<Rightarrow> f a) w Q
     = (case x of None \<Rightarrow> holds m w Q | Some a \<Rightarrow> holds (f a) w Q)"
  by (simp split: option.split)

lemma holds_case_sum:
  "holds (case x of Inl a \<Rightarrow> f a | Inr b \<Rightarrow> g b) w Q
     = (case x of Inl a \<Rightarrow> holds (f a) w Q | Inr b \<Rightarrow> holds (g b) w Q)"
  by (simp split: sum.split)

lemmas holds_simps = Let_def await_uncaught_def holds_return holds_throw holds_now_seconds
  holds_await holds_bind holds_catch holds_if holds_case_option holds_case_sum

lemma holdsD: "holds m w Q \<Longrightarrow> m w = (res, w', t) \<Longrightarrow> Q res w' t"
  by (simp add: holds_def)

lemmas fixture_defs = test_lib_def test_config_def scenario_def test_request_def test_args_def
  good_sig_def forged_sig_def plain_error_def steady_nonce_def moving_nonce_def

lemmas js_defs = BigInt_def trim_def isWhiteSpace_def parse_digits_def parse_step_def
  digit_value_def startsWith_def toLowerCase_def lower_char_def isUpper_def bigint_toString_def
  digit_char_def nat_toString_small nat_toString_large

lemma holds_weaken:
  "holds m w P \<Longrightarrow> (\<And>res w' t. P res w' t \<Longrightarrow> Q res w' t) \<Longrightarrow> holds m w Q"
  by (auto simp: holds_def split: prod.splits)

lemma nonce_reads_append: "nonce_reads (t @ u) = nonce_reads t @ nonce_reads u"
  by (induction t rule: nonce_reads.induct) simp_all

lemma validation_read_kinds:
  "is_validation_read e \<Longrightarrow> \<not> is_dry_run e \<and> \<not> is_estimate e \<and> \<not> is_submit e"
  by (cases e) simp_all

lemma validation_reads_no_nonce: "list_all is_validation_read t \<Longrightarrow> nonce_reads t = []"
  by (induction t rule: nonce_reads.induct) simp_all

lemma validation_reads_no_writes:
  assumes "list_all is_validation_read t"
  shows "list_ex is_submit t = False" "list_ex is_dry_run t = False" "list_ex is_estimate t = False"
  using assms by (induction t) (auto dest: validation_read_kinds)

lemma validation_reads_only:
  "list_all is_validation_read t \<Longrightarrow> \<not> is_validation_read e \<Longrightarrow> (e \<in> set t) = False"
  by (auto simp: list_all_iff)

lemma other_calls_only:
  "list_all (\<lambda>e. \<not> is_validation_read e) t \<Longrightarrow> is_validation_read e \<Longrightarrow> (e \<in> set t) = False"
  by (auto simp: list_all_iff)

lemma validate_reads:
  "holds (validateRequest lib config L request) w (\<lambda>res w' t. list_all is_validation_read t)"
  unfolding validateRequest_def
  by (simp add: holds_simps split: prod.split sum.split option.split)

lemma pipeline_calls:
  "holds (submit_pipeline lib L from args nonce) w
     (\<lambda>res w' t. list_all (\<lambda>e. \<not> is_validation_read e) t)"
  unfolding submit_pipeline_def enrichRevertErrorAsync_def
  by (simp add: holds_simps split: prod.split sum.split option.split)

lemma executePayment_staged:
  "executePayment lib config L request =
     (case getAddress lib (from_addr request) of Inl e \<Rightarrow> throw (LibraryError e) | Inr from \<Rightarrow>
      (case getAddress lib (to_addr request) of Inl e \<Rightarrow> throw (LibraryError e) | Inr to \<Rightarrow>
      (case BigInt (amount request) of None \<Rightarrow> throw (SyntaxError (amount request)) | Some amount' \<Rightarrow>
      (case BigInt (fee request) of None \<Rightarrow> throw (SyntaxError (fee request)) | Some fee' \<Rightarrow>
      let deadline' = deadline request; sig = signature request in
      if length sig < 130 then throw InvalidSignature else
      let signature' = (if startsWith sig ''0x'' then sig else ''0x'' @ sig);
          normalizedRequest = \<lparr>from_addr = from, to_addr = to, amount = bigint_toString amount',
            fee = bigint_toString fee', deadline = deadline', signature = signature'\<rparr>;
          args = \<lparr>arg_from = from, arg_to = to, arg_amount = amount', arg_fee = fee',
            arg_deadline = deadline', arg_signature = signature'\<rparr>
      in
      bind_io (await_uncaught (getNetwork L) GetNetwork) (\<lambda>chainId'.
      bind_io (await_uncaught (getNonce L from) (GetNonce from)) (\<lambda>nonce.
      case getAddress lib (forwarderAddress config) of Inl e \<Rightarrow> throw (LibraryError e) | Inr verifying \<Rightarrow>
      (let domain = \<lparr>name = ''GaslessPaymentForwarder'', version = ''1'',
            chainId = Number_bigint chainId', verifyingContract = verifying\<rparr>;
          message' = \<lparr>msg_from = from, msg_to = to, msg_amount = amount', msg_fee = fee',
            msg_nonce = nonce, msg_deadline = deadline'\<rparr>
      in
      (case recoverTypedDataAddress lib domain message' signature' of
        Inl e \<Rightarrow> throw (InvalidSignatureFormat (message e))
      | Inr recoveredAddress \<Rightarrow>
      if toLowerCase recoveredAddress \<noteq> toLowerCase from
      then throw (SignerMismatch recoveredAddress from chainId' nonce) else
      bind_io (validateRequest lib config L normalizedRequest) (\<lambda>_.
      submit_pipeline lib L from args nonce)))))))))"
  unfolding executePayment_def submit_pipeline_def by (rule refl)

section \<open>Malformed requests\<close>

text \<open>
  Claim C8.  When \<open>from\<close> or \<open>to\<close> is no address, \<open>amount\<close> or \<open>fee\<close> is no
  integer literal, or the signature has fewer than 130 characters, \<open>executePayment\<close>
  raises an error with the ledger untouched and no network call made.
\<close>

theorem malformed_request_no_network_call:
  assumes "isl (getAddress lib (from_addr request)) \<or> isl (getAddress lib (to_addr request))
    \<or> BigInt (amount request) = None \<or> BigInt (fee request) = None
    \<or> length (signature request) < 130"
  shows "\<exists>e. executePayment lib config L request w = (Inl e, w, [])"
  using assms
  by (auto simp: executePayment_def throw_def Let_def isl_def split: sum.splits option.splits)

theorem malformed_request_no_network_call_witness:
  "BigInt (amount (test_request (Finite 2000) good_sig\<lparr>amount := ''1.5''\<rparr>)) = None
   \<and> (\<exists>e. executePayment test_lib test_config (scenario 100 90 5 1000 21001 steady_nonce)
          (test_request (Finite 2000) good_sig\<lparr>amount := ''1.5''\<rparr>) 0 = (Inl e, 0, []))"
proof -
  have h: "BigInt (amount (test_request (Finite 2000) good_sig\<lparr>amount := ''1.5''\<rparr>)) = None"
    by (simp add: test_request_def js_defs)
  then show ?thesis
    using malformed_request_no_network_call [of test_lib
        "test_request (Finite 2000) good_sig\<lparr>amount := ''1.5''\<rparr>" test_config
        "scenario 100 90 5 1000 21001 steady_nonce" 0]
    by simp
qed

section \<open>The replay-counter race\<close>

lemma pipeline_race:
  "holds (submit_pipeline lib L from args nonce) w (\<lambda>res w' t.
     (nonce_reads t = [] \<or> (\<exists>r. nonce_reads t = [r])) \<and>
     (\<forall>n'. nonce_reads t = [Inr n'] \<longrightarrow> n' \<noteq> nonce \<longrightarrow>
        res = Inl (CounterRaceLost nonce n') \<and> \<not> list_ex is_submit t \<and> \<not> list_ex is_estimate t))"
  unfolding submit_pipeline_def enrichRevertErrorAsync_def
  by (simp add: holds_simps split: prod.split sum.split option.split)

lemma executePayment_race:
  "holds (executePayment lib config L request) w (\<lambda>res w' t.
     (\<forall>n n'. nonce_reads t = [Inr n, Inr n'] \<longrightarrow> n' \<noteq> n \<longrightarrow>
        res = Inl (CounterRaceLost n n') \<and> \<not> list_ex is_submit t \<and> \<not> list_ex is_estimate t))"
  unfolding executePayment_staged
  by (auto simp: holds_simps nonce_reads_append validation_reads_no_nonce validation_reads_no_writes
      split: prod.split sum.split option.split
      intro!: holds_weaken [OF validate_reads] holds_weaken [OF pipeline_race])

text \<open>
  Claim C2.  In a run of \<open>executePayment\<close> whose second replay-counter read (the one
  right before sending) answers a value other than the first (the one used for
  verification and the dry run), the result is the counter-race error, and neither a gas
  estimate nor a submission is ever requested.
\<close>

theorem counter_race_never_submits:
  assumes "executePayment lib config L request w = (res, w', t)"
    and "nonce_reads t = [Inr n, Inr n']" and "n' \<noteq> n"
  shows "res = Inl (CounterRaceLost n n') \<and> \<not> list_ex is_submit t \<and> \<not> list_ex is_estimate t"
  using holdsD [OF executePayment_race assms(1)] assms(2,3) by blast

lemma racing_run:
  "executePayment test_lib test_config (scenario 100 90 5 1000 21001 moving_nonce)
     (test_request (Finite 2000) good_sig) 0
   = (Inl (CounterRaceLost 0 1), 2,
      [GetNetwork (Inr 114), GetNonce ''0xAlice'' (Inr 0),
       GetBlock (Inr (Some \<lparr>timestamp = 1000\<rparr>)), Fxrp (Inr ''0xFXRP''),
       Decimals ''0xFXRP'' (Inr 6), BalanceOf ''0xFXRP'' ''0xAlice'' (Inr 100),
       Allowance ''0xFXRP'' ''0xAlice'' ''0xForwarder'' (Inr 90), RelayerFee (Inr 5),
       StaticCall (test_args (Finite 2000) good_sig) (Inr ()),
       GetNonce ''0xAlice'' (Inr 1)])"
  by (simp add: executePayment_def validateRequest_def io_defs fixture_defs js_defs)

theorem counter_race_never_submits_witness:
  "nonce_reads (snd (snd (executePayment test_lib test_config
       (scenario 100 90 5 1000 21001 moving_nonce) (test_request (Finite 2000) good_sig) 0)))
     = [Inr 0, Inr 1]
   \<and> (1 :: int) \<noteq> 0
   \<and> fst (executePayment test_lib test_config (scenario 100 90 5 1000 21001 moving_nonce)
       (test_request (Finite 2000) good_sig) 0) = Inl (CounterRaceLost 0 1)"
  using counter_race_never_submits [OF racing_run, of 0 1] by (simp add: racing_run)

section \<open>The gas ceiling\<close>

lemma pipeline_gas:
  "holds (submit_pipeline lib L from args nonce) w (\<lambda>res w' t.
     \<forall>a E. EstimateGas a (Inr E) \<in> set t \<longrightarrow> (\<exists>r. SendPayment a (gasLimit_of E) r \<in> set t))"
  unfolding submit_pipeline_def enrichRevertErrorAsync_def
  by (simp add: holds_simps split: prod.split sum.split option.split)

lemma executePayment_gas:
  "holds (executePayment lib config L request) w (\<lambda>res w' t.
     \<forall>a E. EstimateGas a (Inr E) \<in> set t \<longrightarrow> (\<exists>r. SendPayment a (gasLimit_of E) r \<in> set t))"
  unfolding executePayment_staged
  by (auto simp: holds_simps validation_reads_only
      split: prod.split sum.split option.split
      intro!: holds_weaken [OF validate_reads] holds_weaken [OF pipeline_gas])

lemma gasLimit_of_nonneg: "0 \<le> E \<Longrightarrow> gasLimit_of E = (E * 130) div 100"
  by (simp add: gasLimit_of_def signed_divide_int_def sgn_if)

lemma gasLimit_of_floor:
  assumes "0 \<le> E"
  shows "E \<le> gasLimit_of E" "10 * gasLimit_of E \<le> 13 * E" "13 * E < 10 * gasLimit_of E + 10"
proof -
  define q where "q = (E * 130) div 100"
  define r where "r = (E * 130) mod 100"
  have eq: "E * 130 = 100 * q + r"
    unfolding q_def r_def by (rule mult_div_mod_eq [symmetric])
  have r: "0 \<le> r" "r < 100"
    unfolding r_def by (rule pos_mod_sign, simp) (rule pos_mod_bound, simp)
  have g: "gasLimit_of E = q"
    unfolding q_def using assms by (rule gasLimit_of_nonneg)
  show "E \<le> gasLimit_of E" using eq r assms unfolding g by linarith
  show "10 * gasLimit_of E \<le> 13 * E" using eq r unfolding g by linarith
  show "13 * E < 10 * gasLimit_of E + 10" using eq r unfolding g by linarith
qed

text \<open>
  Claim C3, as amended.  In a run of \<open>executePayment\<close> whose gas estimate succeeds
  with \<open>E\<close>, the transaction is sent with the gas ceiling \<open>(E * 130) / 100\<close> in
  truncating bigint division: for \<open>E \<ge> 0\<close> this is 1.3 \<open>E\<close> rounded down, at least
  \<open>E\<close>, at most 1.3 \<open>E\<close> and less than one unit below it.
\<close>

theorem gas_ceiling_is_floor_of_margin:
  assumes "executePayment lib config L request w = (res, w', t)"
    and "EstimateGas args (Inr E) \<in> set t"
  shows "(\<exists>r. SendPayment args (gasLimit_of E) r \<in> set t)
    \<and> gasLimit_of E = (E * 130) sdiv 100
    \<and> (0 \<le> E \<longrightarrow> E \<le> gasLimit_of E \<and> 10 * gasLimit_of E \<le> 13 * E
          \<and> 13 * E < 10 * gasLimit_of E + 10)"
proof -
  from holdsD [OF executePayment_gas assms(1)] assms(2)
  have "\<exists>r. SendPayment args (gasLimit_of E) r \<in> set t" by blast
  moreover have "gasLimit_of E = (E * 130) sdiv 100" by (rule gasLimit_of_def)
  moreover have "0 \<le> E \<longrightarrow> E \<le> gasLimit_of E \<and> 10 * gasLimit_of E \<le> 13 * E
      \<and> 13 * E < 10 * gasLimit_of E + 10"
    using gasLimit_of_floor [of E] by blast
  ultimately show ?thesis by blast
qed

lemma successful_run:
  "executePayment test_lib test_config (scenario 100 90 5 1000 21001 steady_nonce)
     (test_request (Finite 2000) good_sig) 0
   = (Inr \<lparr>success = True, transactionHash = ''0xTX'', blockNumber = Some 7,
          gasUsed = ''21000''\<rparr>, 2,
      [GetNetwork (Inr 114), GetNonce ''0xAlice'' (Inr 0),
       GetBlock (Inr (Some \<lparr>timestamp = 1000\<rparr>)), Fxrp (Inr ''0xFXRP''),
       Decimals ''0xFXRP'' (Inr 6), BalanceOf ''0xFXRP'' ''0xAlice'' (Inr 100),
       Allowance ''0xFXRP'' ''0xAlice'' ''0xForwarder'' (Inr 90), RelayerFee (Inr 5),
       StaticCall (test_args (Finite 2000) good_sig) (Inr ()),
       GetNonce ''0xAlice'' (Inr 0),
       EstimateGas (test_args (Finite 2000) good_sig) (Inr 21001),
       SendPayment (test_args (Finite 2000) good_sig) 27301 (Inr ''0xTX''),
       Wait ''0xTX'' (Inr (Some \<lparr>receipt_blockNumber = Some 7, receipt_gasUsed = Some 21000\<rparr>))])"
  by (simp add: executePayment_def validateRequest_def enrichRevertErrorAsync_def gasLimit_of_def
      signed_divide_int_def io_defs fixture_defs js_defs)

theorem gas_ceiling_is_floor_of_margin_witness:
  "EstimateGas (test_args (Finite 2000) good_sig) (Inr 21001)
     \<in> set (snd (snd (executePayment test_lib test_config
          (scenario 100 90 5 1000 21001 steady_nonce) (test_request (Finite 2000) good_sig) 0)))
   \<and> (0 :: int) \<le> 21001
   \<and> SendPayment (test_args (Finite 2000) good_sig) 27301 (Inr ''0xTX'')
     \<in> set (snd (snd (executePayment test_lib test_config
          (scenario 100 90 5 1000 21001 steady_nonce) (test_request (Finite 2000) good_sig) 0)))
   \<and> gasLimit_of 21001 = 27301 \<and> 10 * gasLimit_of 21001 \<le> 13 * 21001"
  using gas_ceiling_is_floor_of_margin [OF successful_run, of "test_args (Finite 2000) good_sig" 21001]
  by (simp add: successful_run gasLimit_of_def signed_divide_int_def)

text \<open>
  Claim C3, as stated, fails: with the estimate 21001 the transaction is sent with the
  ceiling 27301, which is below 1.3 \<times> 21001 = 27301.3.
\<close>

theorem gas_ceiling_below_margin_counterexample:
  "executePayment test_lib test_config (scenario 100 90 5 1000 21001 steady_nonce)
     (test_request (Finite 2000) good_sig) 0
   = (Inr \<lparr>success = True, transactionHash = ''0xTX'', blockNumber = Some 7,
          gasUsed = ''21000''\<rparr>, 2,
      [GetNetwork (Inr 114), GetNonce ''0xAlice'' (Inr 0),
       GetBlock (Inr (Some \<lparr>timestamp = 1000\<rparr>)), Fxrp (Inr ''0xFXRP''),
       Decimals ''0xFXRP'' (Inr 6), BalanceOf ''0xFXRP'' ''0xAlice'' (Inr 100),
       Allowance ''0xFXRP'' ''0xAlice'' ''0xForwarder'' (Inr 90), RelayerFee (Inr 5),
       StaticCall (test_args (Finite 2000) good_sig) (Inr ()),
       GetNonce ''0xAlice'' (Inr 0),
       EstimateGas (test_args (Finite 2000) good_sig) (Inr 21001),
       SendPayment (test_args (Finite 2000) good_sig) 27301 (Inr ''0xTX''),
       Wait ''0xTX'' (Inr (Some \<lparr>receipt_blockNumber = Some 7, receipt_gasUsed = Some 21000\<rparr>))])
   \<and> \<not> (13 / 10 * (21001 :: rat) \<le> 27301)"
  by (simp add: successful_run)

section \<open>Expired authorizations\<close>

lemma validate_expiry:
  "holds (validateRequest lib config L request) w (\<lambda>res w' t.
     list_all is_validation_read t \<and>
     (\<forall>b. GetBlock (Inr (Some b)) \<in> set t \<longrightarrow> js_le (deadline request) (timestamp b) \<longrightarrow>
        res = Inl (RequestExpired (deadline request) (timestamp b))))"
  unfolding validateRequest_def
  by (simp add: holds_simps split: prod.split sum.split option.split)

lemma executePayment_expiry:
  "holds (executePayment lib config L request) w (\<lambda>res w' t.
     \<forall>b. GetBlock (Inr (Some b)) \<in> set t \<longrightarrow> js_le (deadline request) (timestamp b) \<longrightarrow>
        res = Inl (RequestExpired (deadline request) (timestamp b)))"
  unfolding executePayment_staged
  by (auto simp: holds_simps other_calls_only
      split: prod.split sum.split option.split
      intro!: holds_weaken [OF validate_expiry] holds_weaken [OF pipeline_calls])

lemma validateRequest_signature:
  "validateRequest lib config L (request\<lparr>signature := s\<rparr>) = validateRequest lib config L request"
  unfolding validateRequest_def by (simp cong: if_cong option.case_cong)

lemma validateRequest_expired:
  assumes "getBlock L w = (Inr (Some b), w1)" "js_le (deadline request) (timestamp b)"
  shows "validateRequest lib config L request w
    = (Inl (RequestExpired (deadline request) (timestamp b)), w1, [GetBlock (Inr (Some b))])"
  using assms unfolding validateRequest_def io_defs by simp

lemma executePayment_expired_after_verification:
  assumes "getAddress lib (from_addr request) = Inr from"
    and "getAddress lib (to_addr request) = Inr to"
    and "BigInt (amount request) = Some a" and "BigInt (fee request) = Some f"
    and "\<not> length (signature request) < 130"
    and "getNetwork L w = (Inr c, w1)" and "getNonce L from w1 = (Inr n, w2)"
    and "getAddress lib (forwarderAddress config) = Inr verifying"
    and "recoverTypedDataAddress lib
           \<lparr>name = ''GaslessPaymentForwarder'', version = ''1'', chainId = Number_bigint c,
             verifyingContract = verifying\<rparr>
           \<lparr>msg_from = from, msg_to = to, msg_amount = a, msg_fee = f, msg_nonce = n,
             msg_deadline = deadline request\<rparr>
           (if startsWith (signature request) ''0x'' then signature request
            else ''0x'' @ signature request) = Inr recovered"
    and "toLowerCase recovered = toLowerCase from"
    and "getBlock L w2 = (Inr (Some b), w3)" and "js_le (deadline request) (timestamp b)"
  shows "executePayment lib config L request w
    = (Inl (RequestExpired (deadline request) (timestamp b)), w3,
       [GetNetwork (Inr c), GetNonce from (Inr n), GetBlock (Inr (Some b))])"
proof -
  have "validateRequest lib config L nr w2
      = (Inl (RequestExpired (deadline request) (timestamp b)), w3, [GetBlock (Inr (Some b))])"
    if "deadline nr = deadline request" for nr
    using validateRequest_expired [of L w2 b w3 nr lib config] assms(11,12) that by simp
  with assms show ?thesis
    unfolding executePayment_staged by (simp add: io_defs)
qed

text \<open>
  Claim C1, as amended.  \<open>validateRequest\<close> fails with the expiry error for every
  authorization whose deadline is at most the timestamp of the latest block, whatever
  its signature, which it never inspects.  \<open>executePayment\<close> verifies the signature
  first: for a request that normalizes and whose signature recovers to the claimed
  sender, it fails with the expiry error when the deadline is at most the timestamp of
  the latest block; and in every run that reads the latest block and finds its timestamp
  at or past the deadline, the result is the expiry error.
\<close>

theorem expired_after_signature_check:
  "(getBlock L w = (Inr (Some b), w1) \<and> js_le (deadline request) (timestamp b) \<longrightarrow>
      validateRequest lib config L (request\<lparr>signature := s\<rparr>) w
        = (Inl (RequestExpired (deadline request) (timestamp b)), w1, [GetBlock (Inr (Some b))]))
   \<and> (getAddress lib (from_addr request) = Inr from
        \<and> getAddress lib (to_addr request) = Inr to
        \<and> BigInt (amount request) = Some a \<and> BigInt (fee request) = Some f
        \<and> \<not> length (signature request) < 130
        \<and> getNetwork L u = (Inr c, u1) \<and> getNonce L from u1 = (Inr n, u2)
        \<and> getAddress lib (forwarderAddress config) = Inr verifying
        \<and> recoverTypedDataAddress lib
             \<lparr>name = ''GaslessPaymentForwarder'', version = ''1'', chainId = Number_bigint c,
               verifyingContract = verifying\<rparr>
             \<lparr>msg_from = from, msg_to = to, msg_amount = a, msg_fee = f, msg_nonce = n,
               msg_deadline = deadline request\<rparr>
             (if startsWith (signature request) ''0x'' then signature request
              else ''0x'' @ signature request) = Inr recovered
        \<and> toLowerCase recovered = toLowerCase from
        \<and> getBlock L u2 = (Inr (Some b), u3) \<and> js_le (deadline request) (timestamp b) \<longrightarrow>
      executePayment lib config L request u
        = (Inl (RequestExpired (deadline request) (timestamp b)), u3,
           [GetNetwork (Inr c), GetNonce from (Inr n), GetBlock (Inr (Some b))]))
   \<and> (executePayment lib config L request u = (res, u', t) \<and> GetBlock (Inr (Some b)) \<in> set t
        \<and> js_le (deadline request) (timestamp b) \<longrightarrow>
      res = Inl (RequestExpired (deadline request) (timestamp b)))"
proof (intro conjI impI)
  assume "getBlock L w = (Inr (Some b), w1) \<and> js_le (deadline request) (timestamp b)"
  then show "validateRequest lib config L (request\<lparr>signature := s\<rparr>) w
        = (Inl (RequestExpired (deadline request) (timestamp b)), w1, [GetBlock (Inr (Some b))])"
    by (simp add: validateRequest_signature validateRequest_expired)
next
  assume "getAddress lib (from_addr request) = Inr from
        \<and> getAddress lib (to_addr request) = Inr to
        \<and> BigInt (amount request) = Some a \<and> BigInt (fee request) = Some f
        \<and> \<not> length (signature request) < 130
        \<and> getNetwork L u = (Inr c, u1) \<and> getNonce L from u1 = (Inr n, u2)
        \<and> getAddress lib (forwarderAddress config) = Inr verifying
        \<and> recoverTypedDataAddress lib
             \<lparr>name = ''GaslessPaymentForwarder'', version = ''1'', chainId = Number_bigint c,
               verifyingContract = verifying\<rparr>
             \<lparr>msg_from = from, msg_to = to, msg_amount = a, msg_fee = f, msg_nonce = n,
               msg_deadline = deadline request\<rparr>
             (if startsWith (signature request) ''0x'' then signature request
              else ''0x'' @ signature request) = Inr recovered
        \<and> toLowerCase recovered = toLowerCase from
        \<and> getBlock L u2 = (Inr (Some b), u3) \<and> js_le (deadline request) (timestamp b)"
  then show "executePayment lib config L request u
        = (Inl (RequestExpired (deadline request) (timestamp b)), u3,
           [GetNetwork (Inr c), GetNonce from (Inr n), GetBlock (Inr (Some b))])"
    by (intro executePayment_expired_after_verification) blast+
next
  assume "executePayment lib config L request u = (res, u', t) \<and> GetBlock (Inr (Some b)) \<in> set t
        \<and> js_le (deadline request) (timestamp b)"
  then show "res = Inl (RequestExpired (deadline request) (timestamp b))"
    using holdsD [OF executePayment_expiry, of lib config L request u res u' t] by blast
qed

theorem expired_after_signature_check_witness:
  "getBlock (scenario 100 90 5 1000 21001 steady_nonce) 1 = (Inr (Some \<lparr>timestamp = 1000\<rparr>), 1)
   \<and> js_le (deadline (test_request (Finite 900) good_sig)) 1000
   \<and> toLowerCase ''0xAlice'' = toLowerCase ''0xAlice''
   \<and> validateRequest test_lib test_config (scenario 100 90 5 1000 21001 steady_nonce)
        (test_request (Finite 900) good_sig\<lparr>signature := forged_sig\<rparr>) 1
      = (Inl (RequestExpired (Finite 900) 1000), 1, [GetBlock (Inr (Some \<lparr>timestamp = 1000\<rparr>))])
   \<and> executePayment test_lib test_config (scenario 100 90 5 1000 21001 steady_nonce)
        (test_request (Finite 900) good_sig) 0
      = (Inl (RequestExpired (Finite 900) 1000), 1,
         [GetNetwork (Inr 114), GetNonce ''0xAlice'' (Inr 0),
          GetBlock (Inr (Some \<lparr>timestamp = 1000\<rparr>))])"
  using expired_after_signature_check [where L = "scenario 100 90 5 1000 21001 steady_nonce"
      and w = 1 and ?w1.0 = 1 and b = "\<lparr>timestamp = 1000\<rparr>"
      and request = "test_request (Finite 900) good_sig" and lib = test_lib
      and config = test_config and s = forged_sig
      and ?from = "''0xAlice''" and to = "''0xBob''" and a = 80 and f = 10
      and u = 0 and ?u1.0 = 0 and ?u2.0 = 1 and ?u3.0 = 1 and c = 114 and n = 0
      and verifying = "''0xForwarder''" and recovered = "''0xAlice''"
      and res = "Inl (RequestExpired (Finite 900) 1000)" and u' = 1
      and t = "[GetNetwork (Inr 114), GetNonce ''0xAlice'' (Inr 0),
          GetBlock (Inr (Some \<lparr>timestamp = 1000\<rparr>))]"]
  by (simp add: fixture_defs js_defs)

text \<open>
  Claim C1, as stated, fails: an authorization whose deadline 900 is before the ledger
  time 1000 and whose signature recovers to another address is rejected with the
  signer-mismatch error, after two network calls and before the latest block is read.
\<close>

theorem expired_with_forged_signature_counterexample:
  "js_le (deadline (test_request (Finite 900) forged_sig)) 1000
   \<and> getBlock (scenario 100 90 5 1000 21001 steady_nonce) 1 = (Inr (Some \<lparr>timestamp = 1000\<rparr>), 1)
   \<and> executePayment test_lib test_config (scenario 100 90 5 1000 21001 steady_nonce)
        (test_request (Finite 900) forged_sig) 0
      = (Inl (SignerMismatch ''0xMallory'' ''0xAlice'' 114 0), 1,
         [GetNetwork (Inr 114), GetNonce ''0xAlice'' (Inr 0)])"
  by (simp add: executePayment_def io_defs fixture_defs js_defs)

section \<open>Signature verification\<close>

lemma validate_errors:
  "holds (validateRequest lib config L request) w (\<lambda>res w' t.
     \<forall>r e c k. res \<noteq> Inl (SignerMismatch r e c k))"
  unfolding validateRequest_def
  by (simp add: holds_simps split: prod.split sum.split option.split)

lemma pipeline_errors:
  "holds (submit_pipeline lib L from args nonce) w (\<lambda>res w' t.
     (\<forall>r e c k. res \<noteq> Inl (SignerMismatch r e c k))
     \<and> (\<forall>x y. res \<noteq> Inl (InsufficientAllowance x y)))"
  unfolding submit_pipeline_def enrichRevertErrorAsync_def enrichRevertError_def
  by (simp add: holds_simps split: prod.split sum.split option.split)

lemma Number_bigint_exact:
  assumes "\<bar>c\<bar> < 2 ^ 53"
  shows "Number_bigint c = Finite (of_int c)"
proof -
  from assms have "nat \<bar>c\<bar> < 2 ^ 53" by simp
  then show ?thesis by (simp add: Number_bigint_def Let_def)
qed

text \<open>
  Claim C4.  For a request that normalizes, with \<open>c\<close> the chain id and \<open>n\<close> the
  sender's counter as the ledger answers them, and \<open>recovered\<close> the address recovered
  from the signature over the message \<open>(from, to, amount, fee, n, deadline)\<close> under the
  domain of \<open>Number(c)\<close> and the checksummed forwarder address: \<open>executePayment\<close>
  fails with the signer-mismatch error iff \<open>recovered\<close> and \<open>from\<close> differ after
  lower-casing, and the error then carries \<open>recovered\<close>, \<open>from\<close>, \<open>c\<close> and
  \<open>n\<close>.  \<open>Number(c)\<close> is \<open>c\<close> itself for every chain id below \<open>2^53\<close>.
\<close>

theorem signer_mismatch_iff:
  assumes "getAddress lib (from_addr request) = Inr from"
    and "getAddress lib (to_addr request) = Inr to"
    and "BigInt (amount request) = Some a" and "BigInt (fee request) = Some f"
    and "\<not> length (signature request) < 130"
    and "sig = (if startsWith (signature request) ''0x'' then signature request
                else ''0x'' @ signature request)"
    and "getNetwork L w = (Inr c, w1)" and "getNonce L from w1 = (Inr n, w2)"
    and "getAddress lib (forwarderAddress config) = Inr verifying"
    and "recoverTypedDataAddress lib
           \<lparr>name = ''GaslessPaymentForwarder'', version = ''1'', chainId = Number_bigint c,
             verifyingContract = verifying\<rparr>
           \<lparr>msg_from = from, msg_to = to, msg_amount = a, msg_fee = f, msg_nonce = n,
             msg_deadline = deadline request\<rparr> sig = Inr recovered"
  shows "((\<exists>r e k m. fst (executePayment lib config L request w) = Inl (SignerMismatch r e k m))
            \<longleftrightarrow> toLowerCase recovered \<noteq> toLowerCase from)
    \<and> (toLowerCase recovered \<noteq> toLowerCase from \<longrightarrow>
          executePayment lib config L request w
            = (Inl (SignerMismatch recovered from c n), w2,
               [GetNetwork (Inr c), GetNonce from (Inr n)]))
    \<and> (\<bar>c\<bar> < 2 ^ 53 \<longrightarrow> Number_bigint c = Finite (of_int c))"
proof (cases "toLowerCase recovered \<noteq> toLowerCase from")
  case True
  with assms have "executePayment lib config L request w
      = (Inl (SignerMismatch recovered from c n), w2, [GetNetwork (Inr c), GetNonce from (Inr n)])"
    unfolding executePayment_def by (simp add: io_defs)
  with True show ?thesis by (simp add: Number_bigint_exact)
next
  case False
  with assms have "holds (executePayment lib config L request) w
      (\<lambda>res w' t. \<forall>r e k m. res \<noteq> Inl (SignerMismatch r e k m))"
    unfolding executePayment_staged
    by (auto simp: holds_simps split: prod.split sum.split option.split
        intro!: holds_weaken [OF validate_errors] holds_weaken [OF pipeline_errors])
  then have "\<forall>r e k m. fst (executePayment lib config L request w) \<noteq> Inl (SignerMismatch r e k m)"
    by (simp add: holds_def split: prod.splits)
  with False show ?thesis by (simp add: Number_bigint_exact)
qed

theorem signer_mismatch_iff_witness:
  "toLowerCase ''0xMallory'' \<noteq> toLowerCase ''0xAlice''
   \<and> executePayment test_lib test_config (scenario 100 90 5 1000 21001 steady_nonce)
        (test_request (Finite 2000) forged_sig) 0
      = (Inl (SignerMismatch ''0xMallory'' ''0xAlice'' 114 0), 1,
         [GetNetwork (Inr 114), GetNonce ''0xAlice'' (Inr 0)])
   \<and> Number_bigint 114 = Finite 114"
  using signer_mismatch_iff [of test_lib "test_request (Finite 2000) forged_sig" "''0xAlice''"
      "''0xBob''" 80 10 forged_sig "scenario 100 90 5 1000 21001 steady_nonce" 0 114 0 0 1
      test_config "''0xForwarder''" "''0xMallory''"]
  by (simp add: fixture_defs js_defs)

section \<open>The balance check\<close>

text \<open>
  Claim C5, as amended.  For an authorization that is not expired (its deadline is after
  the ledger time read) and whose amount and fee parse, with the token address, decimals
  and balance as the ledger answers them: \<open>validateRequest\<close> fails with the
  insufficient-balance error iff the balance is below amount + fee; the error carries
  \<open>formatUnits\<close> of the required total and of the balance at the token's decimals; at
  balance = amount + fee the check passes and the allowance is read next.
\<close>

theorem insufficient_balance_iff:
  assumes "getBlock L w = (Inr block, w1)"
    and "chainTime = (case block of Some b \<Rightarrow> timestamp b | None \<Rightarrow> dateNow L w1 div 1000)"
    and "\<not> js_le (deadline request) chainTime"
    and "fxrp L w1 = (Inr token, w2)" and "decimals L token w2 = (Inr d, w3)"
    and "balanceOf L token (from_addr request) w3 = (Inr bal, w4)"
    and "BigInt (amount request) = Some a" and "BigInt (fee request) = Some f"
  shows "((\<exists>x y. fst (validateRequest lib config L request w) = Inl (InsufficientBalance x y))
            \<longleftrightarrow> bal < a + f)
    \<and> (bal < a + f \<longrightarrow>
          validateRequest lib config L request w
            = (Inl (InsufficientBalance (formatUnits lib (a + f) d) (formatUnits lib bal d)), w4,
               [GetBlock (Inr block), Fxrp (Inr token), Decimals token (Inr d),
                BalanceOf token (from_addr request) (Inr bal)]))
    \<and> (bal = a + f \<longrightarrow>
          (\<exists>r. Allowance token (from_addr request) (forwarderAddress config) r
             \<in> set (snd (snd (validateRequest lib config L request w)))))"
proof -
  have "holds (validateRequest lib config L request) w (\<lambda>res w' t.
      (bal < a + f \<longrightarrow> res = Inl (InsufficientBalance (formatUnits lib (a + f) d) (formatUnits lib bal d))
         \<and> w' = w4 \<and> t = [GetBlock (Inr block), Fxrp (Inr token), Decimals token (Inr d),
                BalanceOf token (from_addr request) (Inr bal)])
      \<and> (\<not> bal < a + f \<longrightarrow> (\<forall>x y. res \<noteq> Inl (InsufficientBalance x y))
         \<and> (\<exists>r. Allowance token (from_addr request) (forwarderAddress config) r \<in> set t)))"
    using assms unfolding validateRequest_def
    by (cases block; simp add: holds_simps split: prod.split sum.split)
  then show ?thesis
    by (cases "validateRequest lib config L request w") (auto simp: holds_def)
qed

lemma boundary_validation:
  "validateRequest test_lib test_config (scenario 90 90 5 1000 21001 steady_nonce)
     (test_request (Finite 2000) good_sig) 0
   = (Inr (), 0,
      [GetBlock (Inr (Some \<lparr>timestamp = 1000\<rparr>)), Fxrp (Inr ''0xFXRP''),
       Decimals ''0xFXRP'' (Inr 6), BalanceOf ''0xFXRP'' ''0xAlice'' (Inr 90),
       Allowance ''0xFXRP'' ''0xAlice'' ''0xForwarder'' (Inr 90), RelayerFee (Inr 5)])"
  by (simp add: validateRequest_def io_defs fixture_defs js_defs)

theorem insufficient_balance_iff_witness:
  "\<not> js_le (deadline (test_request (Finite 2000) good_sig)) 1000
   \<and> (89 :: int) < 80 + 10
   \<and> validateRequest test_lib test_config (scenario 89 90 5 1000 21001 steady_nonce)
        (test_request (Finite 2000) good_sig) 0
      = (Inl (InsufficientBalance ''90'' ''89''), 0,
         [GetBlock (Inr (Some \<lparr>timestamp = 1000\<rparr>)), Fxrp (Inr ''0xFXRP''),
          Decimals ''0xFXRP'' (Inr 6), BalanceOf ''0xFXRP'' ''0xAlice'' (Inr 89)])"
  using insufficient_balance_iff [of "scenario 89 90 5 1000 21001 steady_nonce" 0
      "Some \<lparr>timestamp = 1000\<rparr>" 0 1000 "test_request (Finite 2000) good_sig" "''0xFXRP''" 0 6 0
      89 0 80 10 test_lib test_config]
  by (simp add: fixture_defs js_defs)

text \<open>
  Claim C5, as stated, fails: for an expired authorization of a sender whose balance 50
  is below amount + fee = 90, validation fails with the expiry error after one network
  call; the balance is never read.
\<close>

theorem expired_and_poor_counterexample:
  "js_le (deadline (test_request (Finite 900) good_sig)) 1000
   \<and> balanceOf (scenario 50 90 5 1000 21001 steady_nonce) ''0xFXRP'' ''0xAlice'' 0 = (Inr 50, 0)
   \<and> BigInt (amount (test_request (Finite 900) good_sig)) = Some 80
   \<and> BigInt (fee (test_request (Finite 900) good_sig)) = Some 10
   \<and> (50 :: int) < 80 + 10
   \<and> validateRequest test_lib test_config (scenario 50 90 5 1000 21001 steady_nonce)
        (test_request (Finite 900) good_sig) 0
      = (Inl (RequestExpired (Finite 900) 1000), 0, [GetBlock (Inr (Some \<lparr>timestamp = 1000\<rparr>))])"
  by (simp add: validateRequest_def io_defs fixture_defs js_defs)

section \<open>The allowance check\<close>

lemma validate_allowance:
  assumes "BigInt (amount request) = Some a" and "BigInt (fee request) = Some f"
  shows "holds (validateRequest lib config L request) w (\<lambda>res w' t.
     list_all is_validation_read t \<and>
     (Allowance tk ow sp (Inr al) \<in> set t \<longrightarrow> Decimals tk' (Inr d) \<in> set t \<longrightarrow>
        (al < a + f \<longrightarrow> res = Inl (InsufficientAllowance (formatUnits lib (a + f) d)
           (formatUnits lib al d)))
        \<and> (a + f \<le> al \<longrightarrow> (\<exists>x. RelayerFee x \<in> set t)
             \<and> (\<forall>x y. res \<noteq> Inl (InsufficientAllowance x y)))))"
  using assms unfolding validateRequest_def
  by (simp add: holds_simps split: prod.split sum.split option.split)

lemma pipeline_allowance:
  "holds (submit_pipeline lib L from args nonce) w (\<lambda>res w' t.
     list_all (\<lambda>e. \<not> is_validation_read e) t \<and> (\<forall>x y. res \<noteq> Inl (InsufficientAllowance x y)))"
  unfolding submit_pipeline_def enrichRevertErrorAsync_def enrichRevertError_def
  by (simp add: holds_simps split: prod.split sum.split option.split)

lemma executePayment_allowance:
  assumes "BigInt (amount request) = Some a" and "BigInt (fee request) = Some f"
  shows "holds (executePayment lib config L request) w (\<lambda>res w' t.
     Allowance tk ow sp (Inr al) \<in> set t \<longrightarrow> Decimals tk' (Inr d) \<in> set t \<longrightarrow>
        (al < a + f \<longrightarrow> res = Inl (InsufficientAllowance (formatUnits lib (a + f) d)
           (formatUnits lib al d))
           \<and> \<not> list_ex is_dry_run t \<and> \<not> list_ex is_estimate t \<and> \<not> list_ex is_submit t)
        \<and> (a + f \<le> al \<longrightarrow> (\<exists>x. RelayerFee x \<in> set t)
             \<and> (\<forall>x y. res \<noteq> Inl (InsufficientAllowance x y))))"
proof -
  have v: "holds (validateRequest lib config L nr) w2 (\<lambda>res w' t.
     list_all is_validation_read t \<and>
     (Allowance tk ow sp (Inr al) \<in> set t \<longrightarrow> Decimals tk' (Inr d) \<in> set t \<longrightarrow>
        (al < a + f \<longrightarrow> res = Inl (InsufficientAllowance (formatUnits lib (a + f) d)
           (formatUnits lib al d)))
        \<and> (a + f \<le> al \<longrightarrow> (\<exists>x. RelayerFee x \<in> set t)
             \<and> (\<forall>x y. res \<noteq> Inl (InsufficientAllowance x y)))))"
    if "amount nr = bigint_toString a" and "fee nr = bigint_toString f" for nr w2
    by (rule validate_allowance) (simp_all add: that BigInt_toString)
  show ?thesis
    using assms unfolding executePayment_staged
    by (auto simp: holds_simps validation_reads_only other_calls_only validation_reads_no_writes
        split: prod.split sum.split
        intro!: holds_weaken [OF v] holds_weaken [OF pipeline_allowance])
qed

text \<open>
  Claim C6, as amended.  In every run of \<open>executePayment\<close> that reaches the allowance
  check (the signature verified, the authorization not expired, the balance sufficient),
  if the allowance the ledger answers is below amount + fee, the run fails with the
  insufficient-allowance error carrying \<open>formatUnits\<close> of the required total and of the
  allowance, and makes no dry run, gas estimate or submission; at allowance \<open>\<ge>\<close>
  amount + fee the check passes and the minimum fee is read next.
\<close>

theorem insufficient_allowance_stops_before_dry_run:
  assumes "executePayment lib config L request w = (res, w', t)"
    and "Allowance token owner spender (Inr al) \<in> set t"
    and "Decimals token' (Inr d) \<in> set t"
    and "BigInt (amount request) = Some a" and "BigInt (fee request) = Some f"
  shows "(al < a + f \<longrightarrow>
            res = Inl (InsufficientAllowance (formatUnits lib (a + f) d) (formatUnits lib al d))
            \<and> \<not> list_ex is_dry_run t \<and> \<not> list_ex is_estimate t \<and> \<not> list_ex is_submit t)
    \<and> (a + f \<le> al \<longrightarrow> (\<exists>x. RelayerFee x \<in> set t)
          \<and> (\<forall>x y. res \<noteq> Inl (InsufficientAllowance x y)))"
  using holdsD [OF executePayment_allowance [OF assms(4,5)] assms(1)] assms(2,3) by blast

lemma low_allowance_run:
  "executePayment test_lib test_config (scenario 100 85 5 1000 21001 steady_nonce)
     (test_request (Finite 2000) good_sig) 0
   = (Inl (InsufficientAllowance ''90'' ''85''), 1,
      [GetNetwork (Inr 114), GetNonce ''0xAlice'' (Inr 0),
       GetBlock (Inr (Some \<lparr>timestamp = 1000\<rparr>)), Fxrp (Inr ''0xFXRP''),
       Decimals ''0xFXRP'' (Inr 6), BalanceOf ''0xFXRP'' ''0xAlice'' (Inr 100),
       Allowance ''0xFXRP'' ''0xAlice'' ''0xForwarder'' (Inr 85)])"
  by (simp add: executePayment_def validateRequest_def io_defs fixture_defs js_defs)

theorem insufficient_allowance_stops_before_dry_run_witness:
  "Allowance ''0xFXRP'' ''0xAlice'' ''0xForwarder'' (Inr 85)
     \<in> set (snd (snd (executePayment test_lib test_config
          (scenario 100 85 5 1000 21001 steady_nonce) (test_request (Finite 2000) good_sig) 0)))
   \<and> Decimals ''0xFXRP'' (Inr 6)
     \<in> set (snd (snd (executePayment test_lib test_config
          (scenario 100 85 5 1000 21001 steady_nonce) (test_request (Finite 2000) good_sig) 0)))
   \<and> BigInt (amount (test_request (Finite 2000) good_sig)) = Some 80
   \<and> BigInt (fee (test_request (Finite 2000) good_sig)) = Some 10
   \<and> (85 :: int) < 80 + 10
   \<and> fst (executePayment test_lib test_config (scenario 100 85 5 1000 21001 steady_nonce)
        (test_request (Finite 2000) good_sig) 0)
      = Inl (InsufficientAllowance (formatUnits test_lib 90 6) (formatUnits test_lib 85 6))
   \<and> \<not> list_ex is_dry_run (snd (snd (executePayment test_lib test_config
          (scenario 100 85 5 1000 21001 steady_nonce) (test_request (Finite 2000) good_sig) 0)))"
  using insufficient_allowance_stops_before_dry_run [OF low_allowance_run,
      of "''0xFXRP''" "''0xAlice''" "''0xForwarder''" 85 "''0xFXRP''" 6 80 10]
  by (simp add: low_allowance_run) (simp add: fixture_defs js_defs)

text \<open>
  Claim C6, as stated, fails: for a sender whose allowance 85 and balance 50 are both
  below amount + fee = 90, \<open>executePayment\<close> fails with the insufficient-balance error;
  the allowance is never read.
\<close>

theorem insufficient_balance_first_counterexample:
  "allowance (scenario 50 85 5 1000 21001 steady_nonce) ''0xFXRP'' ''0xAlice'' ''0xForwarder'' 1
     = (Inr 85, 1)
   \<and> BigInt (amount (test_request (Finite 2000) good_sig)) = Some 80
   \<and> BigInt (fee (test_request (Finite 2000) good_sig)) = Some 10
   \<and> (85 :: int) < 80 + 10
   \<and> executePayment test_lib test_config (scenario 50 85 5 1000 21001 steady_nonce)
        (test_request (Finite 2000) good_sig) 0
      = (Inl (InsufficientBalance ''90'' ''50''), 1,
         [GetNetwork (Inr 114), GetNonce ''0xAlice'' (Inr 0),
          GetBlock (Inr (Some \<lparr>timestamp = 1000\<rparr>)), Fxrp (Inr ''0xFXRP''),
          Decimals ''0xFXRP'' (Inr 6), BalanceOf ''0xFXRP'' ''0xAlice'' (Inr 50)])"
  by (simp add: executePayment_def validateRequest_def io_defs fixture_defs js_defs)

section \<open>Batch submission\<close>

lemma format_requests_id:
  "map (\<lambda>r. \<lparr>from_addr = from_addr r, to_addr = to_addr r, amount = amount r, fee = fee r,
     deadline = deadline r, signature = signature r\<rparr>) (requests :: PaymentRequest list) = requests"
  by (induction requests) simp_all

lemma validation_reads_filter_submit:
  "list_all is_validation_read t \<Longrightarrow> filter is_submit t = []"
  by (induction t) (auto dest: validation_read_kinds)

lemma validate_all_reads:
  "holds (validate_all lib config L requests) w (\<lambda>res w' t. list_all is_validation_read t)"
proof (induction requests arbitrary: w)
  case Nil
  show ?case by (simp add: holds_return)
next
  case (Cons r rs)
  show ?case
    by (auto simp: holds_bind split: sum.split
        intro!: holds_weaken [OF validate_reads] holds_weaken [OF Cons.IH])
qed

lemma executeBatchPayments_run:
  "holds (executeBatchPayments lib config L requests) w (\<lambda>res w' t.
     \<not> list_ex is_dry_run t \<and> \<not> list_ex is_estimate t \<and> nonce_reads t = []
     \<and> length (filter is_submit t) \<le> 1
     \<and> (\<forall>items g r. SendBatch items g r \<in> set t \<longrightarrow>
           items = requests \<and> g = 100000 * int (length requests))
     \<and> (\<forall>result. res = Inr result \<longrightarrow>
           paymentsProcessed result = length requests \<and> success result
           \<and> SendBatch requests (100000 * int (length requests)) (Inr (transactionHash result))
               \<in> set t))"
  unfolding executeBatchPayments_def format_requests_id
  by (auto simp: holds_simps validation_reads_only validation_reads_no_writes
        validation_reads_no_nonce nonce_reads_append validation_reads_filter_submit
      split: prod.split sum.split
      intro!: holds_weaken [OF validate_all_reads])

lemma executeBatchPayments_after_validation:
  assumes "validate_all lib config L requests w = (Inr (), wv, tv)"
    and "g = 100000 * int (length requests)"
  shows "executeBatchPayments lib config L requests w =
    (case sendBatch L requests g wv of
       (Inl e, ws) \<Rightarrow> (Inl (LibraryError e), ws, tv @ [SendBatch requests g (Inl e)])
     | (Inr h, ws) \<Rightarrow>
         (case wait L h ws of
            (Inl e, wz) \<Rightarrow>
              (Inl (LibraryError e), wz, tv @ [SendBatch requests g (Inr h), Wait h (Inl e)])
          | (Inr rc, wz) \<Rightarrow>
              (Inr \<lparr>success = True, transactionHash = h,
                 blockNumber = (case rc of None \<Rightarrow> None | Some r \<Rightarrow> receipt_blockNumber r),
                 gasUsed = (case rc of None \<Rightarrow> ''0'' | Some r \<Rightarrow>
                   (case receipt_gasUsed r of None \<Rightarrow> ''0'' | Some u \<Rightarrow> bigint_toString u)),
                 paymentsProcessed = length requests\<rparr>, wz,
               tv @ [SendBatch requests g (Inr h), Wait h (Inr rc)])))"
  using assms unfolding executeBatchPayments_def format_requests_id
  by (simp add: io_defs split: prod.split sum.split)

text \<open>
  Claim C7.  A run of \<open>executeBatchPayments\<close> makes no dry run and no gas estimate,
  submits at most once, and what it submits is the whole list of items with the gas ceiling
  100000 times their number; a result, when one is returned, reports as processed the
  number of items submitted, in the one transaction whose hash it carries.  Once all
  items have passed validation the batch is submitted, exactly once, as that one
  transaction with that ceiling; and when sending and waiting succeed, the result is
  returned, with \<open>success\<close> set, the hash of the transaction and the number of items.
\<close>

theorem batch_submits_once_with_linear_ceiling:
  assumes "executeBatchPayments lib config L requests w = (res, w', t)"
  shows "\<not> list_ex is_dry_run t \<and> \<not> list_ex is_estimate t
     \<and> length (filter is_submit t) \<le> 1
     \<and> (\<forall>items g r. SendBatch items g r \<in> set t \<longrightarrow>
           items = requests \<and> g = 100000 * int (length requests))
     \<and> (\<forall>result. res = Inr result \<longrightarrow>
           paymentsProcessed result = length requests \<and> success result
           \<and> SendBatch requests (100000 * int (length requests)) (Inr (transactionHash result))
               \<in> set t)
     \<and> (\<forall>wv tv. validate_all lib config L requests w = (Inr (), wv, tv) \<longrightarrow>
           SendBatch requests (100000 * int (length requests))
               (fst (sendBatch L requests (100000 * int (length requests)) wv)) \<in> set t
           \<and> length (filter is_submit t) = 1
           \<and> (\<forall>h ws rc wz.
                 sendBatch L requests (100000 * int (length requests)) wv = (Inr h, ws)
                 \<and> wait L h ws = (Inr rc, wz) \<longrightarrow>
                 res = Inr \<lparr>success = True, transactionHash = h,
                     blockNumber = (case rc of None \<Rightarrow> None | Some r \<Rightarrow> receipt_blockNumber r),
                     gasUsed = (case rc of None \<Rightarrow> ''0'' | Some r \<Rightarrow>
                       (case receipt_gasUsed r of None \<Rightarrow> ''0'' | Some u \<Rightarrow> bigint_toString u)),
                     paymentsProcessed = length requests\<rparr>
                 \<and> w' = wz
                 \<and> t = tv @ [SendBatch requests (100000 * int (length requests)) (Inr h),
                              Wait h (Inr rc)]))"
proof -
  have submitted: "SendBatch requests (100000 * int (length requests))
               (fst (sendBatch L requests (100000 * int (length requests)) wv)) \<in> set t
           \<and> length (filter is_submit t) = 1
           \<and> (\<forall>h ws rc wz.
                 sendBatch L requests (100000 * int (length requests)) wv = (Inr h, ws)
                 \<and> wait L h ws = (Inr rc, wz) \<longrightarrow>
                 res = Inr \<lparr>success = True, transactionHash = h,
                     blockNumber = (case rc of None \<Rightarrow> None | Some r \<Rightarrow> receipt_blockNumber r),
                     gasUsed = (case rc of None \<Rightarrow> ''0'' | Some r \<Rightarrow>
                       (case receipt_gasUsed r of None \<Rightarrow> ''0'' | Some u \<Rightarrow> bigint_toString u)),
                     paymentsProcessed = length requests\<rparr>
                 \<and> w' = wz
                 \<and> t = tv @ [SendBatch requests (100000 * int (length requests)) (Inr h),
                              Wait h (Inr rc)])"
    if v: "validate_all lib config L requests w = (Inr (), wv, tv)" for wv tv
  proof -
    have reads: "filter is_submit tv = []"
      using holdsD [OF validate_all_reads v] by (rule validation_reads_filter_submit)
    from executeBatchPayments_after_validation [OF v refl] assms reads show ?thesis
      by (auto split: prod.splits sum.splits)
  qed
  from holdsD [OF executeBatchPayments_run assms]
  have "\<not> list_ex is_dry_run t \<and> \<not> list_ex is_estimate t
     \<and> length (filter is_submit t) \<le> 1
     \<and> (\<forall>items g r. SendBatch items g r \<in> set t \<longrightarrow>
           items = requests \<and> g = 100000 * int (length requests))
     \<and> (\<forall>result. res = Inr result \<longrightarrow>
           paymentsProcessed result = length requests \<and> success result
           \<and> SendBatch requests (100000 * int (length requests)) (Inr (transactionHash result))
               \<in> set t)"
    by blast
  with submitted show ?thesis by blast
qed

lemma batch_of_three_run:
  "executeBatchPayments test_lib test_config (scenario 100 90 5 1000 21001 steady_nonce)
     [test_request (Finite 2000) good_sig, test_request (Finite 3000) good_sig,
      test_request (Finite 4000) forged_sig] 0
   = (Inr \<lparr>success = True, transactionHash = ''0xBATCH'', blockNumber = Some 7,
          gasUsed = ''21000'', paymentsProcessed = 3\<rparr>, 0,
      [GetBlock (Inr (Some \<lparr>timestamp = 1000\<rparr>)), Fxrp (Inr ''0xFXRP''),
       Decimals ''0xFXRP'' (Inr 6), BalanceOf ''0xFXRP'' ''0xAlice'' (Inr 100),
       Allowance ''0xFXRP'' ''0xAlice'' ''0xForwarder'' (Inr 90), RelayerFee (Inr 5),
       GetBlock (Inr (Some \<lparr>timestamp = 1000\<rparr>)), Fxrp (Inr ''0xFXRP''),
       Decimals ''0xFXRP'' (Inr 6), BalanceOf ''0xFXRP'' ''0xAlice'' (Inr 100),
       Allowance ''0xFXRP'' ''0xAlice'' ''0xForwarder'' (Inr 90), RelayerFee (Inr 5),
       GetBlock (Inr (Some \<lparr>timestamp = 1000\<rparr>)), Fxrp (Inr ''0xFXRP''),
       Decimals ''0xFXRP'' (Inr 6), BalanceOf ''0xFXRP'' ''0xAlice'' (Inr 100),
       Allowance ''0xFXRP'' ''0xAlice'' ''0xForwarder'' (Inr 90), RelayerFee (Inr 5),
       SendBatch [test_request (Finite 2000) good_sig, test_request (Finite 3000) good_sig,
         test_request (Finite 4000) forged_sig] 300000 (Inr ''0xBATCH''),
       Wait ''0xBATCH'' (Inr (Some \<lparr>receipt_blockNumber = Some 7,
         receipt_gasUsed = Some 21000\<rparr>))])"
  by (simp add: executeBatchPayments_def validateRequest_def io_defs fixture_defs js_defs)

lemma three_items_validation:
  "validate_all test_lib test_config (scenario 100 90 5 1000 21001 steady_nonce)
     [test_request (Finite 2000) good_sig, test_request (Finite 3000) good_sig,
      test_request (Finite 4000) forged_sig] 0
   = (Inr (), 0,
      [GetBlock (Inr (Some \<lparr>timestamp = 1000\<rparr>)), Fxrp (Inr ''0xFXRP''),
       Decimals ''0xFXRP'' (Inr 6), BalanceOf ''0xFXRP'' ''0xAlice'' (Inr 100),
       Allowance ''0xFXRP'' ''0xAlice'' ''0xForwarder'' (Inr 90), RelayerFee (Inr 5),
       GetBlock (Inr (Some \<lparr>timestamp = 1000\<rparr>)), Fxrp (Inr ''0xFXRP''),
       Decimals ''0xFXRP'' (Inr 6), BalanceOf ''0xFXRP'' ''0xAlice'' (Inr 100),
       Allowance ''0xFXRP'' ''0xAlice'' ''0xForwarder'' (Inr 90), RelayerFee (Inr 5),
       GetBlock (Inr (Some \<lparr>timestamp = 1000\<rparr>)), Fxrp (Inr ''0xFXRP''),
       Decimals ''0xFXRP'' (Inr 6), BalanceOf ''0xFXRP'' ''0xAlice'' (Inr 100),
       Allowance ''0xFXRP'' ''0xAlice'' ''0xForwarder'' (Inr 90), RelayerFee (Inr 5)])"
  by (simp add: validateRequest_def io_defs fixture_defs js_defs)

theorem batch_submits_once_with_linear_ceiling_witness:
  "validate_all test_lib test_config (scenario 100 90 5 1000 21001 steady_nonce)
     [test_request (Finite 2000) good_sig, test_request (Finite 3000) good_sig,
      test_request (Finite 4000) forged_sig] 0
   = (Inr (), 0,
      [GetBlock (Inr (Some \<lparr>timestamp = 1000\<rparr>)), Fxrp (Inr ''0xFXRP''),
       Decimals ''0xFXRP'' (Inr 6), BalanceOf ''0xFXRP'' ''0xAlice'' (Inr 100),
       Allowance ''0xFXRP'' ''0xAlice'' ''0xForwarder'' (Inr 90), RelayerFee (Inr 5),
       GetBlock (Inr (Some \<lparr>timestamp = 1000\<rparr>)), Fxrp (Inr ''0xFXRP''),
       Decimals ''0xFXRP'' (Inr 6), BalanceOf ''0xFXRP'' ''0xAlice'' (Inr 100),
       Allowance ''0xFXRP'' ''0xAlice'' ''0xForwarder'' (Inr 90), RelayerFee (Inr 5),
       GetBlock (Inr (Some \<lparr>timestamp = 1000\<rparr>)), Fxrp (Inr ''0xFXRP''),
       Decimals ''0xFXRP'' (Inr 6), BalanceOf ''0xFXRP'' ''0xAlice'' (Inr 100),
       Allowance ''0xFXRP'' ''0xAlice'' ''0xForwarder'' (Inr 90), RelayerFee (Inr 5)])
   \<and> sendBatch (scenario 100 90 5 1000 21001 steady_nonce)
       [test_request (Finite 2000) good_sig, test_request (Finite 3000) good_sig,
        test_request (Finite 4000) forged_sig] (100000 * 3) 0 = (Inr ''0xBATCH'', 0)
   \<and> wait (scenario 100 90 5 1000 21001 steady_nonce) ''0xBATCH'' 0
       = (Inr (Some \<lparr>receipt_blockNumber = Some 7, receipt_gasUsed = Some 21000\<rparr>), 0)
   \<and> paymentsProcessed (projr (fst (executeBatchPayments test_lib test_config
       (scenario 100 90 5 1000 21001 steady_nonce)
       [test_request (Finite 2000) good_sig, test_request (Finite 3000) good_sig,
        test_request (Finite 4000) forged_sig] 0))) = 3
   \<and> length (filter is_submit (snd (snd (executeBatchPayments test_lib test_config
          (scenario 100 90 5 1000 21001 steady_nonce)
          [test_request (Finite 2000) good_sig, test_request (Finite 3000) good_sig,
           test_request (Finite 4000) forged_sig] 0)))) = 1
   \<and> SendBatch [test_request (Finite 2000) good_sig, test_request (Finite 3000) good_sig,
         test_request (Finite 4000) forged_sig] (100000 * 3) (Inr ''0xBATCH'')
     \<in> set (snd (snd (executeBatchPayments test_lib test_config
          (scenario 100 90 5 1000 21001 steady_nonce)
          [test_request (Finite 2000) good_sig, test_request (Finite 3000) good_sig,
           test_request (Finite 4000) forged_sig] 0)))"
proof -
  let ?L = "scenario 100 90 5 1000 21001 steady_nonce"
  let ?rs = "[test_request (Finite 2000) good_sig, test_request (Finite 3000) good_sig,
      test_request (Finite 4000) forged_sig]"
  let ?X = "executeBatchPayments test_lib test_config ?L ?rs 0"
  have sent: "sendBatch ?L ?rs (100000 * int (length ?rs)) 0 = (Inr ''0xBATCH'', 0)"
    by (simp add: scenario_def)
  have waited: "wait ?L ''0xBATCH'' 0
       = (Inr (Some \<lparr>receipt_blockNumber = Some 7, receipt_gasUsed = Some 21000\<rparr>), 0)"
    by (simp add: scenario_def)
  have run: "?X = (fst ?X, fst (snd ?X), snd (snd ?X))" by simp
  note validated = batch_submits_once_with_linear_ceiling [OF run, THEN conjunct2,
      THEN conjunct2, THEN conjunct2, THEN conjunct2, THEN conjunct2, rule_format,
      OF three_items_validation]
  have c1: "sendBatch ?L ?rs (100000 * 3) 0 = (Inr ''0xBATCH'', 0)"
    using sent by simp
  have c2: "length (filter is_submit (snd (snd ?X))) = 1"
    using validated by (rule conjunct2 [THEN conjunct1])
  have "fst ?X = Inr \<lparr>success = True, transactionHash = ''0xBATCH'',
      blockNumber = (case Some \<lparr>receipt_blockNumber = Some 7, receipt_gasUsed = Some 21000\<rparr>
        of None \<Rightarrow> None | Some r \<Rightarrow> receipt_blockNumber r),
      gasUsed = (case Some \<lparr>receipt_blockNumber = Some 7, receipt_gasUsed = Some 21000\<rparr>
        of None \<Rightarrow> ''0'' | Some r \<Rightarrow>
          (case receipt_gasUsed r of None \<Rightarrow> ''0'' | Some u \<Rightarrow> bigint_toString u)),
      paymentsProcessed = length ?rs\<rparr>"
    using validated [THEN conjunct2, THEN conjunct2, rule_format, OF conjI [OF sent waited]]
    by (rule conjunct1)
  then have c3: "paymentsProcessed (projr (fst ?X)) = 3" by simp
  have "SendBatch ?rs (100000 * int (length ?rs))
      (fst (sendBatch ?L ?rs (100000 * int (length ?rs)) 0)) \<in> set (snd (snd ?X))"
    using validated by (rule conjunct1)
  then have c4: "SendBatch ?rs (100000 * 3) (Inr ''0xBATCH'') \<in> set (snd (snd ?X))"
    using sent by simp
  show ?thesis
    by (intro conjI) (fact three_items_validation c1 waited c3 c2 c4)+
qed

section \<open>Validation of batch items\<close>

lemma validateRequest_recover:
  "validateRequest (lib\<lparr>recoverTypedDataAddress := rc\<rparr>) config L request
     = validateRequest lib config L request"
  unfolding validateRequest_def by (simp add: Let_def cong: if_cong option.case_cong)

lemma validate_all_recover:
  "validate_all (lib\<lparr>recoverTypedDataAddress := rc\<rparr>) config L requests
     = validate_all lib config L requests"
  by (induction requests) (simp_all add: validateRequest_recover)

lemma validate_all_fails:
  assumes "validate_all lib config L xs w = (Inr u, w1, t1)"
    and "validateRequest lib config L r w1 = (Inl e, w2, t2)"
  shows "validate_all lib config L (xs @ r # ys) w = (Inl e, w2, t1 @ t2)"
  using assms
proof (induction xs arbitrary: w t1)
  case Nil
  then show ?case by (simp add: bind_io_def return_def)
next
  case (Cons x xs)
  from Cons.prems(1) obtain a wa ta tb where x: "validateRequest lib config L x w = (Inr a, wa, ta)"
    and xs: "validate_all lib config L xs wa = (Inr u, w1, tb)" and t1: "t1 = ta @ tb"
    by (auto simp: bind_io_def split: prod.splits sum.splits)
  from Cons.IH [OF xs Cons.prems(2)] x t1 show ?case
    by (simp add: bind_io_def)
qed

lemma validate_all_each:
  assumes "validate_all lib config L requests w = (Inr u, w', t)" and "r \<in> set requests"
  shows "\<exists>w1 w2 tr. validateRequest lib config L r w1 = (Inr (), w2, tr) \<and> set tr \<subseteq> set t"
  using assms
proof (induction requests arbitrary: w t)
  case Nil
  then show ?case by simp
next
  case (Cons x xs)
  from Cons.prems(1) obtain wa ta tb where x: "validateRequest lib config L x w = (Inr (), wa, ta)"
    and xs: "validate_all lib config L xs wa = (Inr u, w', tb)" and t: "t = ta @ tb"
    by (auto simp: bind_io_def split: prod.splits sum.splits)
  show ?case
  proof (cases "r = x")
    case True
    with x t show ?thesis by auto
  next
    case False
    with Cons.prems(2) have "r \<in> set xs" by simp
    from Cons.IH [OF xs this] t show ?thesis by auto
  qed
qed

lemma batch_submit_after_validation:
  assumes "executeBatchPayments lib config L requests w = (res, w', t)" and "list_ex is_submit t"
  shows "\<exists>w1 t1. validate_all lib config L requests w = (Inr (), w1, t1) \<and> set t1 \<subseteq> set t"
proof (cases "validate_all lib config L requests w")
  case (fields rv w1 t1)
  have reads: "list_all is_validation_read t1"
    using holdsD [OF validate_all_reads fields] .
  show ?thesis
  proof (cases rv)
    case (Inl e)
    with fields assms(1) have "t = t1" by (simp add: executeBatchPayments_def bind_io_def)
    with assms(2) reads show ?thesis by (simp add: validation_reads_no_writes)
  next
    case (Inr u)
    with fields assms(1) show ?thesis
      by (auto simp: executeBatchPayments_def io_defs split: prod.splits sum.splits)
  qed
qed

lemma validate_checks:
  "holds (validateRequest lib config L request) w (\<lambda>res w' t. res = Inr () \<longrightarrow>
     (\<exists>block bal al mf a f.
        GetBlock (Inr block) \<in> set t
        \<and> (\<forall>b. block = Some b \<longrightarrow> \<not> js_le (deadline request) (timestamp b))
        \<and> BigInt (amount request) = Some a \<and> BigInt (fee request) = Some f
        \<and> (\<exists>tk. BalanceOf tk (from_addr request) (Inr bal) \<in> set t) \<and> a + f \<le> bal
        \<and> (\<exists>tk. Allowance tk (from_addr request) (forwarderAddress config) (Inr al) \<in> set t)
        \<and> a + f \<le> al
        \<and> RelayerFee (Inr mf) \<in> set t \<and> mf \<le> f))"
  unfolding validateRequest_def
  by (auto simp: holds_simps split: prod.split sum.split option.split)


text \<open>
  Claim C10.  \<open>executeBatchPayments\<close> reads no replay counter and makes no dry run or
  gas estimate.  When it submits, every item has passed \<open>validateRequest\<close>: not expired,
  balance and allowance at least amount + fee, fee at least the minimum.  When an item
  fails validation after the items before it passed, the batch fails with that item's
  error and nothing is submitted.  Validation does not depend on an item's signature,
  and the batch path does not depend on the signature recovery function at all.
\<close>

theorem batch_validates_items_but_never_signatures:
  "(executeBatchPayments lib config L requests w = (res, w', t) \<longrightarrow>
      nonce_reads t = [] \<and> \<not> list_ex is_dry_run t \<and> \<not> list_ex is_estimate t
      \<and> (list_ex is_submit t \<longrightarrow>
           (\<forall>r \<in> set requests. \<exists>wa wb tr.
              validateRequest lib config L r wa = (Inr (), wb, tr) \<and> set tr \<subseteq> set t
              \<and> (\<exists>block bal al mf a f.
                   GetBlock (Inr block) \<in> set tr
                   \<and> (\<forall>b. block = Some b \<longrightarrow> \<not> js_le (deadline r) (timestamp b))
                   \<and> BigInt (amount r) = Some a \<and> BigInt (fee r) = Some f
                   \<and> (\<exists>tk. BalanceOf tk (from_addr r) (Inr bal) \<in> set tr) \<and> a + f \<le> bal
                   \<and> (\<exists>tk. Allowance tk (from_addr r) (forwarderAddress config) (Inr al) \<in> set tr)
                   \<and> a + f \<le> al
                   \<and> RelayerFee (Inr mf) \<in> set tr \<and> mf \<le> f))))
   \<and> (validate_all lib config L xs w = (Inr (), w1, t1)
        \<and> validateRequest lib config L item w1 = (Inl e, w2, t2) \<longrightarrow>
      executeBatchPayments lib config L (xs @ item # ys) w = (Inl e, w2, t1 @ t2)
      \<and> \<not> list_ex is_submit (t1 @ t2))
   \<and> validateRequest lib config L (item\<lparr>signature := s\<rparr>) = validateRequest lib config L item
   \<and> executeBatchPayments (lib\<lparr>recoverTypedDataAddress := rc\<rparr>) config L requests
       = executeBatchPayments lib config L requests"
proof (intro conjI impI ballI)
  assume run: "executeBatchPayments lib config L requests w = (res, w', t)"
  from holdsD [OF executeBatchPayments_run run]
  show "nonce_reads t = []" "\<not> list_ex is_dry_run t" "\<not> list_ex is_estimate t" by blast+
  fix r
  assume submitted: "list_ex is_submit t" and r: "r \<in> set requests"
  from batch_submit_after_validation [OF run submitted] obtain wv tv
    where all: "validate_all lib config L requests w = (Inr (), wv, tv)" and sub: "set tv \<subseteq> set t"
    by blast
  from validate_all_each [OF all r] obtain wa wb tr
    where item: "validateRequest lib config L r wa = (Inr (), wb, tr)" and tr: "set tr \<subseteq> set tv"
    by blast
  have incl: "set tr \<subseteq> set t" using tr sub by (rule subset_trans)
  have checks: "\<exists>block bal al mf a f.
                   GetBlock (Inr block) \<in> set tr
                   \<and> (\<forall>b. block = Some b \<longrightarrow> \<not> js_le (deadline r) (timestamp b))
                   \<and> BigInt (amount r) = Some a \<and> BigInt (fee r) = Some f
                   \<and> (\<exists>tk. BalanceOf tk (from_addr r) (Inr bal) \<in> set tr) \<and> a + f \<le> bal
                   \<and> (\<exists>tk. Allowance tk (from_addr r) (forwarderAddress config) (Inr al) \<in> set tr)
                   \<and> a + f \<le> al
                   \<and> RelayerFee (Inr mf) \<in> set tr \<and> mf \<le> f"
    using holdsD [OF validate_checks item] by simp
  show "\<exists>wa wb tr.
              validateRequest lib config L r wa = (Inr (), wb, tr) \<and> set tr \<subseteq> set t
              \<and> (\<exists>block bal al mf a f.
                   GetBlock (Inr block) \<in> set tr
                   \<and> (\<forall>b. block = Some b \<longrightarrow> \<not> js_le (deadline r) (timestamp b))
                   \<and> BigInt (amount r) = Some a \<and> BigInt (fee r) = Some f
                   \<and> (\<exists>tk. BalanceOf tk (from_addr r) (Inr bal) \<in> set tr) \<and> a + f \<le> bal
                   \<and> (\<exists>tk. Allowance tk (from_addr r) (forwarderAddress config) (Inr al) \<in> set tr)
                   \<and> a + f \<le> al
                   \<and> RelayerFee (Inr mf) \<in> set tr \<and> mf \<le> f)"
  proof (rule exI [of _ wa], rule exI [of _ wb], rule exI [of _ tr], intro conjI)
    show "validateRequest lib config L r wa = (Inr (), wb, tr)" by (fact item)
    show "set tr \<subseteq> set t" by (fact incl)
    show "\<exists>block bal al mf a f.
                   GetBlock (Inr block) \<in> set tr
                   \<and> (\<forall>b. block = Some b \<longrightarrow> \<not> js_le (deadline r) (timestamp b))
                   \<and> BigInt (amount r) = Some a \<and> BigInt (fee r) = Some f
                   \<and> (\<exists>tk. BalanceOf tk (from_addr r) (Inr bal) \<in> set tr) \<and> a + f \<le> bal
                   \<and> (\<exists>tk. Allowance tk (from_addr r) (forwarderAddress config) (Inr al) \<in> set tr)
                   \<and> a + f \<le> al
                   \<and> RelayerFee (Inr mf) \<in> set tr \<and> mf \<le> f"
      by (fact checks)
  qed
next
  assume fails: "validate_all lib config L xs w = (Inr (), w1, t1)
        \<and> validateRequest lib config L item w1 = (Inl e, w2, t2)"
  then have "validate_all lib config L (xs @ item # ys) w = (Inl e, w2, t1 @ t2)"
    by (simp add: validate_all_fails)
  then show "executeBatchPayments lib config L (xs @ item # ys) w = (Inl e, w2, t1 @ t2)"
    by (simp add: executeBatchPayments_def bind_io_def)
  from fails have "list_all is_validation_read t1" "list_all is_validation_read t2"
    using holdsD [OF validate_all_reads, of lib config L xs w "Inr ()" w1 t1]
      holdsD [OF validate_reads, of lib config L item w1 "Inl e" w2 t2] by simp_all
  then show "\<not> list_ex is_submit (t1 @ t2)"
    by (simp add: validation_reads_no_writes)
next
  show "validateRequest lib config L (item\<lparr>signature := s\<rparr>) = validateRequest lib config L item"
    by (rule validateRequest_signature)
next
  show "executeBatchPayments (lib\<lparr>recoverTypedDataAddress := rc\<rparr>) config L requests
       = executeBatchPayments lib config L requests"
    unfolding executeBatchPayments_def by (simp add: validate_all_recover)
qed

lemma one_item_validation:
  "validate_all test_lib test_config (scenario 100 90 5 1000 21001 steady_nonce)
     [test_request (Finite 2000) good_sig] 0
   = (Inr (), 0,
      [GetBlock (Inr (Some \<lparr>timestamp = 1000\<rparr>)), Fxrp (Inr ''0xFXRP''),
       Decimals ''0xFXRP'' (Inr 6), BalanceOf ''0xFXRP'' ''0xAlice'' (Inr 100),
       Allowance ''0xFXRP'' ''0xAlice'' ''0xForwarder'' (Inr 90), RelayerFee (Inr 5)])"
  by (simp add: validateRequest_def io_defs fixture_defs js_defs)

lemma expired_item_validation:
  "validateRequest test_lib test_config (scenario 100 90 5 1000 21001 steady_nonce)
     (test_request (Finite 900) good_sig) 0
   = (Inl (RequestExpired (Finite 900) 1000), 0, [GetBlock (Inr (Some \<lparr>timestamp = 1000\<rparr>))])"
  by (simp add: validateRequest_def io_defs fixture_defs js_defs)

theorem batch_validates_items_but_never_signatures_witness:
  "list_ex is_submit (snd (snd (executeBatchPayments test_lib test_config
       (scenario 100 90 5 1000 21001 steady_nonce)
       [test_request (Finite 2000) good_sig, test_request (Finite 3000) good_sig,
        test_request (Finite 4000) forged_sig] 0)))
   \<and> nonce_reads (snd (snd (executeBatchPayments test_lib test_config
       (scenario 100 90 5 1000 21001 steady_nonce)
       [test_request (Finite 2000) good_sig, test_request (Finite 3000) good_sig,
        test_request (Finite 4000) forged_sig] 0))) = []
   \<and> test_request (Finite 4000) forged_sig
     \<in> set [test_request (Finite 2000) good_sig, test_request (Finite 3000) good_sig,
        test_request (Finite 4000) forged_sig]
   \<and> executeBatchPayments test_lib test_config (scenario 100 90 5 1000 21001 steady_nonce)
       ([test_request (Finite 2000) good_sig] @ test_request (Finite 900) good_sig
          # [test_request (Finite 3000) good_sig]) 0
     = (Inl (RequestExpired (Finite 900) 1000), 0,
        [GetBlock (Inr (Some \<lparr>timestamp = 1000\<rparr>)), Fxrp (Inr ''0xFXRP''),
         Decimals ''0xFXRP'' (Inr 6), BalanceOf ''0xFXRP'' ''0xAlice'' (Inr 100),
         Allowance ''0xFXRP'' ''0xAlice'' ''0xForwarder'' (Inr 90), RelayerFee (Inr 5)]
        @ [GetBlock (Inr (Some \<lparr>timestamp = 1000\<rparr>))])"
  using batch_validates_items_but_never_signatures [where lib = test_lib and config = test_config
      and L = "scenario 100 90 5 1000 21001 steady_nonce" and w = 0
      and requests = "[test_request (Finite 2000) good_sig, test_request (Finite 3000) good_sig,
        test_request (Finite 4000) forged_sig]"
      and xs = "[test_request (Finite 2000) good_sig]"
      and item = "test_request (Finite 900) good_sig"
      and ys = "[test_request (Finite 3000) good_sig]"
      and e = "RequestExpired (Finite 900) 1000" and ?w1.0 = 0 and ?w2.0 = 0
      and ?t1.0 = "[GetBlock (Inr (Some \<lparr>timestamp = 1000\<rparr>)), Fxrp (Inr ''0xFXRP''),
         Decimals ''0xFXRP'' (Inr 6), BalanceOf ''0xFXRP'' ''0xAlice'' (Inr 100),
         Allowance ''0xFXRP'' ''0xAlice'' ''0xForwarder'' (Inr 90), RelayerFee (Inr 5)]"
      and ?t2.0 = "[GetBlock (Inr (Some \<lparr>timestamp = 1000\<rparr>))]"]
    one_item_validation expired_item_validation
  by (simp add: batch_of_three_run)

section \<open>The revert diagnoser\<close>

lemma parseRevertReason_cases:
  "(truthy (revert e) \<longrightarrow> parseRevertReason lib e = ''Contract reverted: '' @ the (revert e))
   \<and> (\<not> truthy (revert e) \<and> truthy (data e) \<and> startsWith (the (data e)) ''0x''
        \<and> parseError lib (the (data e)) = Inr (Some n) \<longrightarrow>
      parseRevertReason lib e = ''Contract reverted: '' @ n)
   \<and> (\<not> truthy (revert e) \<and> (\<not> truthy (data e) \<or> \<not> startsWith (the (data e)) ''0x''
        \<or> parseError lib (the (data e)) = Inr None \<or> isl (parseError lib (the (data e)))) \<longrightarrow>
      parseRevertReason lib e = message e)"
  by (auto simp: parseRevertReason_def isl_def split: sum.splits option.splits)

lemma enrichRevertErrorAsync_total:
  "holds (enrichRevertErrorAsync lib L e phase txHash) w (\<lambda>res w' t.
     \<exists>msg. res = Inr (PhaseFailed phase msg (explorer_hint txHash))
       \<and> take (length (parseRevertReason lib e)) msg = parseRevertReason lib e
       \<and> (isl (fst (getTransaction L txHash w)) \<longrightarrow> msg = parseRevertReason lib e)
       \<and> t = [GetTransaction txHash (fst (getTransaction L txHash w))])"
  unfolding enrichRevertErrorAsync_def
  by (simp add: holds_simps split: prod.split sum.split option.split)

text \<open>
  Claim C9.  \<open>parseRevertReason\<close> reports the structured error name when the failure
  carries one; else, when revert data starting with \<open>0x\<close> is present and decodes
  against the forwarder's interface, the decoded name; else the raw message, also when
  decoding raises or yields nothing.  \<open>enrichRevertErrorAsync\<close> never raises: it always
  returns an error value whose reason begins with that of \<open>parseRevertReason\<close>, and is
  exactly that reason when fetching the transaction fails.
\<close>

theorem diagnoser_precedence_and_totality:
  "(truthy (revert e) \<longrightarrow> parseRevertReason lib e = ''Contract reverted: '' @ the (revert e))
   \<and> (\<not> truthy (revert e) \<and> truthy (data e) \<and> startsWith (the (data e)) ''0x''
        \<and> parseError lib (the (data e)) = Inr (Some n) \<longrightarrow>
      parseRevertReason lib e = ''Contract reverted: '' @ n)
   \<and> (\<not> truthy (revert e) \<and> (\<not> truthy (data e) \<or> \<not> startsWith (the (data e)) ''0x''
        \<or> parseError lib (the (data e)) = Inr None \<or> isl (parseError lib (the (data e)))) \<longrightarrow>
      parseRevertReason lib e = message e)
   \<and> enrichRevertError lib e phase None = PhaseFailed phase (parseRevertReason lib e) ''''
   \<and> (\<exists>msg w'. enrichRevertErrorAsync lib L e phase txHash w
         = (Inr (PhaseFailed phase msg (explorer_hint txHash)), w',
            [GetTransaction txHash (fst (getTransaction L txHash w))])
       \<and> take (length (parseRevertReason lib e)) msg = parseRevertReason lib e
       \<and> (isl (fst (getTransaction L txHash w)) \<longrightarrow> msg = parseRevertReason lib e))"
proof -
  obtain res w' t where run: "enrichRevertErrorAsync lib L e phase txHash w = (res, w', t)"
    by (cases "enrichRevertErrorAsync lib L e phase txHash w")
  from holdsD [OF enrichRevertErrorAsync_total run] run
  have "\<exists>msg w'. enrichRevertErrorAsync lib L e phase txHash w
         = (Inr (PhaseFailed phase msg (explorer_hint txHash)), w',
            [GetTransaction txHash (fst (getTransaction L txHash w))])
       \<and> take (length (parseRevertReason lib e)) msg = parseRevertReason lib e
       \<and> (isl (fst (getTransaction L txHash w)) \<longrightarrow> msg = parseRevertReason lib e)"
    by auto
  moreover have "enrichRevertError lib e phase None = PhaseFailed phase (parseRevertReason lib e) ''''"
    by (simp add: enrichRevertError_def)
  ultimately show ?thesis
    using parseRevertReason_cases [of e lib n] by blast
qed

theorem diagnoser_precedence_and_totality_witness:
  "\<not> truthy (revert revert_error) \<and> truthy (data revert_error)
   \<and> startsWith (the (data revert_error)) ''0x''
   \<and> parseError test_lib (the (data revert_error)) = Inr (Some ''InvalidSignature'')
   \<and> parseRevertReason test_lib revert_error = ''Contract reverted: InvalidSignature''
   \<and> isl (fst (getTransaction offline_ledger ''0xTX'' 0))
   \<and> fst (enrichRevertErrorAsync test_lib offline_ledger revert_error ''transaction'' ''0xTX'' 0)
      = Inr (PhaseFailed ''transaction'' ''Contract reverted: InvalidSignature''
           (explorer_hint ''0xTX''))"
proof -
  have h: "\<not> truthy (revert revert_error) \<and> truthy (data revert_error)
     \<and> startsWith (the (data revert_error)) ''0x''
     \<and> parseError test_lib (the (data revert_error)) = Inr (Some ''InvalidSignature'')"
    by (simp add: revert_error_def test_lib_def startsWith_def)
  have off: "isl (fst (getTransaction offline_ledger ''0xTX'' 0))"
    by (simp add: offline_ledger_def scenario_def)
  note diagnosis = diagnoser_precedence_and_totality [of revert_error test_lib
      "''InvalidSignature''" "''transaction''" offline_ledger "''0xTX''" 0]
  from diagnosis h
  have "parseRevertReason test_lib revert_error = ''Contract reverted: '' @ ''InvalidSignature''"
    by blast
  then have reason: "parseRevertReason test_lib revert_error = ''Contract reverted: InvalidSignature''"
    by simp
  from diagnosis off obtain w' where
    "enrichRevertErrorAsync test_lib offline_ledger revert_error ''transaction'' ''0xTX'' 0
       = (Inr (PhaseFailed ''transaction'' (parseRevertReason test_lib revert_error)
            (explorer_hint ''0xTX'')), w',
          [GetTransaction ''0xTX'' (fst (getTransaction offline_ledger ''0xTX'' 0))])"
    by blast
  then have "fst (enrichRevertErrorAsync test_lib offline_ledger revert_error ''transaction''
       ''0xTX'' 0)
      = Inr (PhaseFailed ''transaction'' ''Contract reverted: InvalidSignature''
           (explorer_hint ''0xTX''))"
    by (simp add: reason)
  with h reason off show ?thesis by blast
qed

end
